theory Spec2Isabelle
  imports Complex_Main "HOL-Library.AList"
begin

section \<open>Text files and numeric tables\<close>

text \<open>
  The two theories of the repository, \<^verbatim>\<open>Tmatrix\<close>
  (\<^verbatim>\<open>holopy/scattering/theory/tmatrix.py\<close>) and \<^verbatim>\<open>DDA\<close>
  (\<^verbatim>\<open>scatterpy/theory/dda.py\<close>), talk to an external solver through text files in a
  temporary directory. Floating-point numbers are idealised as reals and complex
  numbers; rounding and overflow are outside the model.

  A line of a text file is kept by the call that wrote it: \<open>Str_float x\<close> is the text of
  \<^verbatim>\<open>str(x)\<close> for a float, \<open>Str_complex z\<close> and \<open>Str_int n\<close> the same for a complex
  number and an integer, \<open>Formatted f n\<close> the text of \<^verbatim>\<open>f.format(n)\<close>,
  \<open>Cols xs\<close> is a row of whitespace-separated numbers (what
  \<^verbatim>\<open>np.savetxt\<close> writes for one row, and what a solver writes), and \<open>Literal s\<close> is
  any text that is not numeric.
\<close>

datatype line =
    Str_float real
  | Str_complex complex
  | Str_int int
  | Cols "real list"
  | Literal string
  | Formatted string int

text \<open>
  The scatterer classes are not part of the sources here; the T-matrix theory tells a
  \<^verbatim>\<open>Sphere\<close> from an \<^verbatim>\<open>Axisymmetric\<close> scatterer from anything else and reads the
  attributes \<^verbatim>\<open>r\<close>, \<^verbatim>\<open>n\<close>, \<^verbatim>\<open>rotation\<close> and \<^verbatim>\<open>shape\<close>. An object of any
  other class is kept by the name of its class. The errors are the Python exceptions, by
  their class.
\<close>

datatype scatterer =
    Sphere (sphere_r: real) (sphere_n: complex)
  | Axisymmetric (axi_r: "real \<times> real") (axi_n: complex)
      (axi_rotation: "real \<times> real") (axi_shape: int)
  | Other_scatterer string

text \<open>The theory object: \<^verbatim>\<open>Tmatrix(delete=True)\<close> has the one attribute.\<close>

datatype theory_obj = Tmatrix (delete: bool)

datatype py_error =
    TheoryNotCompatibleError theory_obj scatterer
  | DependencyMissing string
  | FileNotFoundError
  | CalledProcessError
  | OSError
  | IOError
  | IndexError
  | ValueError
  | ZeroDivisionError

text \<open>An exception ends the computation: the rest runs only on a value.\<close>

definition then_py :: "py_error + 'a \<Rightarrow> ('a \<Rightarrow> py_error + 'b) \<Rightarrow> py_error + 'b" where
  "then_py m f = (case m of Inl e \<Rightarrow> Inl e | Inr x \<Rightarrow> f x)"

subsection \<open>\<^verbatim>\<open>np.loadtxt\<close>\<close>

fun parse_line :: "line \<Rightarrow> py_error + real list" where
  "parse_line (Cols xs) = Inr xs"
| "parse_line (Str_float x) = Inr [x]"
| "parse_line (Str_int n) = Inr [of_int n]"
| "parse_line (Str_complex z) = Inl ValueError"
| "parse_line (Literal s) = Inl ValueError"
| "parse_line (Formatted f n) = Inl ValueError"

text \<open>Rows are parsed in file order; a blank row (no column) is skipped.\<close>

fun parse_lines :: "line list \<Rightarrow> py_error + real list list" where
  "parse_lines [] = Inr []"
| "parse_lines (l # ls) =
     (case parse_line l of
        Inl e \<Rightarrow> Inl e
      | Inr r \<Rightarrow>
          (case parse_lines ls of
             Inl e \<Rightarrow> Inl e
           | Inr rs \<Rightarrow> Inr (if r = [] then rs else r # rs)))"

text \<open>
  The array \<^verbatim>\<open>np.loadtxt\<close> returns: rows of different lengths are a
  \<^verbatim>\<open>ValueError\<close>, and with the default \<^verbatim>\<open>ndmin=0\<close> every axis of length one is
  squeezed away, so a table of one row (or one column) comes back one-dimensional.
\<close>

datatype ndarray = Arr0 real | Arr1 "real list" | Arr2 "real list list"

definition loadtxt :: "nat \<Rightarrow> line list \<Rightarrow> py_error + ndarray" where
  "loadtxt skiprows ls =
     (case parse_lines (drop skiprows ls) of
        Inl e \<Rightarrow> Inl e
      | Inr rows \<Rightarrow>
          (case rows of
             [] \<Rightarrow> Inr (Arr1 [])
           | r # rs \<Rightarrow>
               if \<not> list_all (\<lambda>x. length x = length r) rs then Inl ValueError
               else if rs = [] then
                 (if length r = 1 then Inr (Arr0 (hd r)) else Inr (Arr1 r))
               else if length r = 1 then Inr (Arr1 (map hd rows))
               else Inr (Arr2 rows)))"

subsection \<open>Slicing, broadcasting and axes\<close>

text \<open>\<^verbatim>\<open>xs[0::2]\<close>, and \<^verbatim>\<open>a[:, k::2]\<close> on an array, which needs two axes.\<close>

fun every_other :: "'a list \<Rightarrow> 'a list" where
  "every_other [] = []"
| "every_other [x] = [x]"
| "every_other (x # y # xs) = x # every_other xs"

definition columns_from :: "nat \<Rightarrow> ndarray \<Rightarrow> py_error + real list list" where
  "columns_from k a =
     (case a of
        Arr2 rows \<Rightarrow> Inr (map (\<lambda>r. every_other (drop k r)) rows)
      | Arr1 xs \<Rightarrow> Inl IndexError
      | Arr0 x \<Rightarrow> Inl IndexError)"

text \<open>
  \<^verbatim>\<open>re + 1.0j*im\<close> on two arrays of the same number of rows: the column counts must be
  equal, or one of them 1 (broadcasting); anything else is a \<^verbatim>\<open>ValueError\<close>.
\<close>

definition ncols :: "'a list list \<Rightarrow> nat" where
  "ncols rows = (case rows of [] \<Rightarrow> 0 | r # rs \<Rightarrow> length r)"

definition combine_row :: "real list \<Rightarrow> real list \<Rightarrow> complex list" where
  "combine_row xs ys =
     (if length xs = length ys then map2 Complex xs ys
      else if length ys = 1 then map (\<lambda>x. Complex x (hd ys)) xs
      else map (\<lambda>y. Complex (hd xs) y) ys)"

definition add_real_imag :: "real list list \<Rightarrow> real list list \<Rightarrow> py_error + complex list list" where
  "add_real_imag re im =
     (if ncols re = ncols im \<or> ncols im = 1 \<or> ncols re = 1
      then Inr (map2 combine_row re im)
      else Inl ValueError)"

text \<open>\<^verbatim>\<open>s[:, k]\<close>: column \<open>k\<close> of a two-dimensional array.\<close>

definition column :: "nat \<Rightarrow> 'a list list \<Rightarrow> py_error + 'a list" where
  "column k s = (if k < ncols s then Inr (map (\<lambda>r. r ! k) s) else Inl IndexError)"

text \<open>
  \<^verbatim>\<open>a.transpose()\<close> without arguments reverses the order of the axes: for \<open>a\<close> of shape
  \<open>(p, q, n)\<close> the result has shape \<open>(n, q, p)\<close> and \<open>result[k][j][i] = a[i][j][k]\<close>.
\<close>

definition np_transpose :: "'a list list list \<Rightarrow> 'a list list list" where
  "np_transpose a =
     (let p = length a;
          q = (case a of [] \<Rightarrow> 0 | b # bs \<Rightarrow> length b);
          n = (case a of [] \<Rightarrow> 0 | b # bs \<Rightarrow> (case b of [] \<Rightarrow> 0 | c # cs \<Rightarrow> length c))
      in map (\<lambda>k. map (\<lambda>j. map (\<lambda>i. a ! i ! j ! k) [0..<p]) [0..<q]) [0..<n])"

section \<open>Reading the solvers' results\<close>

text \<open>
  Lines 127 to 141 of \<^verbatim>\<open>tmatrix.py\<close>, from \<^verbatim>\<open>np.loadtxt(result_file)\<close> to
  \<^verbatim>\<open>scat_matr\<close>: the columns are paired into complex numbers, scaled by
  \<^verbatim>\<open>-2j*np.pi/med_wavelen\<close>, and
  \<^verbatim>\<open>np.array([[s[:,0], s[:,1]], [-s[:,2], -s[:,3]]]).transpose()\<close> is returned.
\<close>

definition scale_factor :: "real \<Rightarrow> complex" where
  "scale_factor med_wavelen = - 2 * \<i> * complex_of_real pi / complex_of_real med_wavelen"

definition tmatrix_scat_matr :: "real \<Rightarrow> line list \<Rightarrow> py_error + complex list list list" where
  "tmatrix_scat_matr med_wavelen result_file =
     then_py (loadtxt 0 result_file) (\<lambda>tmat_result.
     then_py (columns_from 0 tmat_result) (\<lambda>re.
     then_py (columns_from 1 tmat_result) (\<lambda>im.
     then_py (add_real_imag re im) (\<lambda>s0.
     let s = map (map (\<lambda>z. z * scale_factor med_wavelen)) s0 in
     then_py (column 0 s) (\<lambda>c0.
     then_py (column 1 s) (\<lambda>c1.
     then_py (column 2 s) (\<lambda>c2.
     then_py (column 3 s) (\<lambda>c3.
       Inr (np_transpose [[c0, c1], [map uminus c2, map uminus c3]])))))))))"

text \<open>
  Lines 123 to 146 of \<^verbatim>\<open>dda.py\<close>: one header row is skipped, the two angle columns
  are passed over, and
  \<^verbatim>\<open>np.array([[s[:,1], s[:,2]], [s[:,3], s[:,0]]]).transpose()\<close> is built.
\<close>

definition adda_scat_matr :: "line list \<Rightarrow> py_error + complex list list list" where
  "adda_scat_matr ampl_scatgrid =
     then_py (loadtxt 1 ampl_scatgrid) (\<lambda>adda_result.
     then_py (columns_from 2 adda_result) (\<lambda>re.
     then_py (columns_from 3 adda_result) (\<lambda>im.
     then_py (add_real_imag re im) (\<lambda>s.
     then_py (column 1 s) (\<lambda>c1.
     then_py (column 2 s) (\<lambda>c2.
     then_py (column 3 s) (\<lambda>c3.
     then_py (column 0 s) (\<lambda>c0.
       Inr (np_transpose [[c1, c2], [c3, c0]])))))))))"

section \<open>The file system and the process\<close>

text \<open>
  Temporary directories are numbered; a path inside one is the pair of the directory
  and a name relative to it. The entries are kept in listing order, the order in which
  \<^verbatim>\<open>glob.glob\<close> returns them. \<open>package_exe\<close> says whether the file
  \<^verbatim>\<open>tmatrix_f/S.exe\<close> exists beside \<^verbatim>\<open>tmatrix.py\<close>, \<open>cwd\<close> is the working
  directory of the process (\<open>None\<close> for a directory that is not a temporary one), and
  \<open>log\<close> records, in order, every action that changes something outside the program.
\<close>

datatype content = Executable | Directory | Text "line list"

datatype event =
    Mkdtemp nat
  | Copy_exe nat
  | Chdir "nat option"
  | Open_file nat string
  | Close_file nat string
  | Rmtree nat
  | Run "line list" "nat option"
  | Print_dir nat

record world =
  package_exe :: bool
  tmp_dirs :: "nat list"
  next_tmp :: nat
  files :: "((nat \<times> string) \<times> content) list"
  cwd :: "nat option"
  log :: "event list"

type_synonym 'a io = "world \<Rightarrow> (py_error + 'a) \<times> world"

definition io_return :: "'a \<Rightarrow> 'a io" where
  "io_return x w = (Inr x, w)"

definition io_raise :: "py_error \<Rightarrow> 'a io" where
  "io_raise e w = (Inl e, w)"

definition io_bind :: "'a io \<Rightarrow> ('a \<Rightarrow> 'b io) \<Rightarrow> 'b io" where
  "io_bind m f w = (case m w of (Inl e, w') \<Rightarrow> (Inl e, w') | (Inr x, w') \<Rightarrow> f x w')"

definition io_lift :: "py_error + 'a \<Rightarrow> 'a io" where
  "io_lift v w = (v, w)"

text \<open>\<^verbatim>\<open>tempfile.mkdtemp()\<close>: a directory with a name not used before.\<close>

definition mkdtemp :: "nat io" where
  "mkdtemp w =
     (Inr (next_tmp w),
      w\<lparr>tmp_dirs := tmp_dirs w @ [next_tmp w],
        next_tmp := Suc (next_tmp w),
        log := log w @ [Mkdtemp (next_tmp w)]\<rparr>)"

text \<open>\<^verbatim>\<open>os.getcwd()\<close> fails when the working directory has been removed.\<close>

definition getcwd :: "nat option io" where
  "getcwd w =
     (case cwd w of
        None \<Rightarrow> (Inr None, w)
      | Some d \<Rightarrow> if d \<in> set (tmp_dirs w) then (Inr (Some d), w) else (Inl FileNotFoundError, w))"

definition chdir :: "nat option \<Rightarrow> unit io" where
  "chdir d w = (Inr (), w\<lparr>cwd := d, log := log w @ [Chdir d]\<rparr>)"

text \<open>\<^verbatim>\<open>shutil.copy(tmatrixlocation, temp_dir)\<close>.\<close>

definition copy_exe :: "nat \<Rightarrow> unit io" where
  "copy_exe temp_dir w =
     (if package_exe w
      then (Inr (), w\<lparr>files := AList.update (temp_dir, ''S.exe'') Executable (files w),
                      log := log w @ [Copy_exe temp_dir]\<rparr>)
      else (Inl FileNotFoundError, w))"

text \<open>Opening for writing creates the file empty; every write appends to it.\<close>

definition open_file :: "nat \<Rightarrow> string \<Rightarrow> unit io" where
  "open_file d name w =
     (Inr (), w\<lparr>files := AList.update (d, name) (Text []) (files w),
                log := log w @ [Open_file d name]\<rparr>)"

definition read_lines :: "world \<Rightarrow> nat \<Rightarrow> string \<Rightarrow> line list" where
  "read_lines w d name =
     (case map_of (files w) (d, name) of
        Some (Text ls) \<Rightarrow> ls
      | Some Executable \<Rightarrow> []
      | Some Directory \<Rightarrow> []
      | None \<Rightarrow> [])"

definition write_lines :: "nat \<Rightarrow> string \<Rightarrow> line list \<Rightarrow> unit io" where
  "write_lines d name ls w =
     (Inr (), w\<lparr>files := AList.update (d, name) (Text (read_lines w d name @ ls)) (files w)\<rparr>)"

text \<open>
  A sequence of \<^verbatim>\<open>outf.write(str(e) + '\n')\<close> statements: each expression is
  evaluated, and may raise, after the lines before it have been written.
\<close>

fun write_values :: "nat \<Rightarrow> string \<Rightarrow> (py_error + line) list \<Rightarrow> unit io" where
  "write_values d name [] = io_return ()"
| "write_values d name (v # vs) =
     io_bind (io_lift v) (\<lambda>l.
     io_bind (write_lines d name [l]) (\<lambda>u.
     write_values d name vs))"

definition close_file :: "nat \<Rightarrow> string \<Rightarrow> unit io" where
  "close_file d name w = (Inr (), w\<lparr>log := log w @ [Close_file d name]\<rparr>)"

text \<open>\<^verbatim>\<open>shutil.rmtree(temp_dir)\<close> removes the directory and all that is in it.\<close>

definition rmtree :: "nat \<Rightarrow> unit io" where
  "rmtree d w =
     (Inr (), w\<lparr>tmp_dirs := filter (\<lambda>x. x \<noteq> d) (tmp_dirs w),
                files := filter (\<lambda>e. fst (fst e) \<noteq> d) (files w),
                log := log w @ [Rmtree d]\<rparr>)"

text \<open>
  \<^verbatim>\<open>glob.glob(os.path.join(d, pattern))\<close> for a pattern that is a literal prefix
  followed by an optional \<^verbatim>\<open>*\<close>: the entries of the directory itself, in listing
  order, whose name matches.
\<close>

definition glob :: "nat \<Rightarrow> string \<Rightarrow> bool \<Rightarrow> world \<Rightarrow> string list" where
  "glob d prefix star w =
     map (\<lambda>e. snd (fst e))
       (filter (\<lambda>e. fst (fst e) = d \<and> CHR ''/'' \<notin> set (snd (fst e)) \<and>
                    (if star then take (length prefix) (snd (fst e)) = prefix
                     else snd (fst e) = prefix))
          (files w))"

text \<open>\<^verbatim>\<open>xs[0]\<close>.\<close>

definition first :: "'a list \<Rightarrow> py_error + 'a" where
  "first xs = (case xs of [] \<Rightarrow> Inl IndexError | x # ys \<Rightarrow> Inr x)"

text \<open>Python's division of floats, and \<^verbatim>\<open>x**(1/3.)\<close>, complex for a negative base.\<close>

definition py_div :: "real \<Rightarrow> real \<Rightarrow> py_error + real" where
  "py_div a b = (if b = 0 then Inl ZeroDivisionError else Inr (a / b))"

definition str_cube_root :: "real \<Rightarrow> line" where
  "str_cube_root x =
     (if 0 \<le> x then Str_float (x powr (1 / 3))
      else Str_complex (complex_of_real ((- x) powr (1 / 3)) * cis (pi / 3)))"

definition str_div :: "real \<Rightarrow> real \<Rightarrow> py_error + line" where
  "str_div a b = then_py (py_div a b) (\<lambda>q. Inr (Str_float q))"

text \<open>Reading a text file that a path names.\<close>

definition read_file :: "nat \<Rightarrow> string \<Rightarrow> line list io" where
  "read_file d name w =
     (case map_of (files w) (d, name) of
        Some (Text ls) \<Rightarrow> (Inr ls, w)
      | Some Executable \<Rightarrow> (Inl ValueError, w)
      | Some Directory \<Rightarrow> (Inl IOError, w)
      | None \<Rightarrow> (Inl IOError, w))"

section \<open>The T-matrix theory\<close>

text \<open>\<^verbatim>\<open>Tmatrix._can_handle\<close>.\<close>

definition can_handle :: "scatterer \<Rightarrow> bool" where
  "can_handle scatterer = (is_Sphere scatterer \<or> is_Axisymmetric scatterer)"

text \<open>
  The external program \<^verbatim>\<open>S.exe\<close> is a parameter: from the text of
  \<^verbatim>\<open>tmatrix_tmp.inp\<close> it gives its exit status and, when it writes one, the text of
  \<^verbatim>\<open>tmatrix_tmp.out\<close>. \<^verbatim>\<open>Tmatrix._run_tmat\<close> runs it in the temporary directory
  with \<^verbatim>\<open>subprocess.check_call\<close>.
\<close>

type_synonym tmatrix_program = "line list \<Rightarrow> int \<times> line list option"

definition run_tmat :: "tmatrix_program \<Rightarrow> nat \<Rightarrow> unit io" where
  "run_tmat S_exe temp_dir w =
     (let outcome = S_exe (read_lines w temp_dir ''tmatrix_tmp.inp'');
          w1 = w\<lparr>log := log w @ [Run [Literal ''./S.exe''] (Some temp_dir)]\<rparr>;
          w2 = (case snd outcome of
                  None \<Rightarrow> w1
                | Some ls \<Rightarrow>
                    w1\<lparr>files := AList.update (temp_dir, ''tmatrix_tmp.out'') (Text ls) (files w1)\<rparr>)
      in if fst outcome = 0 then (Inr (), w2) else (Inl CalledProcessError, w2))"

text \<open>
  Lines 87 to 116 of \<^verbatim>\<open>tmatrix.py\<close>: the dispatch on the scatterer, which writes the
  scalar parameters, one per line.
\<close>

definition write_scatterer ::
    "theory_obj \<Rightarrow> nat \<Rightarrow> scatterer \<Rightarrow> real \<Rightarrow> real \<Rightarrow> nat \<Rightarrow> unit io" where
  "write_scatterer self temp_dir scatterer med_wavelen medium_index npoints =
     (case scatterer of
        Sphere r n \<Rightarrow>
          write_values temp_dir ''tmatrix_tmp.inp''
            [Inr (Str_float r),
             Inr (Str_float med_wavelen),
             str_div (Re n) medium_index,
             str_div (Im n) medium_index,
             Inr (Str_int 1),
             Inr (Str_int 0),
             Inr (Str_int 0),
             Inr (Str_int (- 1)),
             Inr (Str_int (int npoints))]
      | Axisymmetric r n rotation shape \<Rightarrow>
          io_bind (if shape = - 1
                   then write_values temp_dir ''tmatrix_tmp.inp''
                          [Inr (str_cube_root (snd r * (fst r)\<^sup>2))]
                   else io_return ()) (\<lambda>u.
          io_bind (if shape = - 2
                   then write_values temp_dir ''tmatrix_tmp.inp''
                          [Inr (str_cube_root (3 / 2 * snd r * (fst r)\<^sup>2))]
                   else io_return ()) (\<lambda>u.
          write_values temp_dir ''tmatrix_tmp.inp''
            [Inr (Str_float med_wavelen),
             str_div (Re n) medium_index,
             str_div (Im n) medium_index,
             str_div (fst r) (snd r),
             Inr (Str_float (snd rotation * 180 / pi)),
             Inr (Str_float (fst rotation * 180 / pi)),
             Inr (Str_int shape),
             Inr (Str_int (int npoints))]))
      | Other_scatterer name \<Rightarrow>
          io_bind (close_file temp_dir ''tmatrix_tmp.inp'') (\<lambda>u.
          io_bind (rmtree temp_dir) (\<lambda>u.
          io_raise (TheoryNotCompatibleError self scatterer))))"

text \<open>
  Lines 74 to 120 of \<^verbatim>\<open>Tmatrix._raw_scat_matrs\<close>, up to the closing of the input
  file. \<open>pos\<close> is the array of sampling points, one row \<open>(kr, theta, phi)\<close> each. The
  result is the local variables the rest of the function uses.
\<close>

definition tmatrix_write_input ::
    "theory_obj \<Rightarrow> scatterer \<Rightarrow> (real \<times> real \<times> real) list \<Rightarrow> real \<Rightarrow> real \<Rightarrow>
     (nat \<times> nat option \<times> real) io" where
  "tmatrix_write_input self scatterer pos medium_wavevec medium_index =
     io_bind mkdtemp (\<lambda>temp_dir.
     io_bind getcwd (\<lambda>current_directory.
     io_bind (copy_exe temp_dir) (\<lambda>u.
     io_bind (chdir (Some temp_dir)) (\<lambda>u.
     let angles = map (\<lambda>p. [fst (snd p) * 180 / pi, snd (snd p) * 180 / pi]) pos in
     io_bind (open_file temp_dir ''tmatrix_tmp.inp'') (\<lambda>u.
     io_bind (io_lift (py_div (2 * pi) medium_wavevec)) (\<lambda>med_wavelen.
     io_bind (write_scatterer self temp_dir scatterer med_wavelen medium_index (length angles)) (\<lambda>u.
     io_bind (write_lines temp_dir ''tmatrix_tmp.inp'' (map Cols angles)) (\<lambda>u.
     io_bind (close_file temp_dir ''tmatrix_tmp.inp'') (\<lambda>u.
     io_return (temp_dir, current_directory, med_wavelen))))))))))"

text \<open>\<^verbatim>\<open>Tmatrix._raw_scat_matrs\<close>.\<close>

definition raw_scat_matrs ::
    "tmatrix_program \<Rightarrow> theory_obj \<Rightarrow> scatterer \<Rightarrow> (real \<times> real \<times> real) list \<Rightarrow> real \<Rightarrow> real \<Rightarrow>
     complex list list list io" where
  "raw_scat_matrs S_exe self scatterer pos medium_wavevec medium_index =
     io_bind (tmatrix_write_input self scatterer pos medium_wavevec medium_index) (\<lambda>locals.
     let temp_dir = fst locals;
         current_directory = fst (snd locals);
         med_wavelen = snd (snd locals) in
     io_bind (run_tmat S_exe temp_dir) (\<lambda>u.
     io_bind (\<lambda>w. (first (glob temp_dir ''tmatrix_tmp.out'' False w), w)) (\<lambda>result_file.
     io_bind (read_file temp_dir result_file) (\<lambda>ls.
     io_bind (io_lift (tmatrix_scat_matr med_wavelen ls)) (\<lambda>scat_matr.
     io_bind (chdir current_directory) (\<lambda>u.
     io_bind (if delete self then rmtree temp_dir else io_return ()) (\<lambda>u.
     io_return scat_matr)))))))"

section \<open>The DDA theory\<close>

text \<open>
  The program \<^verbatim>\<open>adda\<close> is looked up on the search path: \<open>None\<close> when there is none.
  One that is there has the exit status of \<^verbatim>\<open>adda -V\<close> and, for a run, a function
  from the command line and the text of \<^verbatim>\<open>scat_params.dat\<close> to the exit status and
  the run directories it leaves, each with the text of its \<^verbatim>\<open>ampl_scatgrid\<close> when
  that file is written.
\<close>

record adda_program =
  version_status :: int
  adda_run :: "line list \<Rightarrow> line list \<Rightarrow> int \<times> (string \<times> line list option) list"

record optics =
  optics_med_wavelen :: real
  optics_index :: real
  optics_wavevec :: real
  optics_polarization :: "real \<times> real"

record dda_obj =
  dda_optics :: optics
  dda_imshape :: "nat \<times> nat"

text \<open>The attributes \<^verbatim>\<open>DDA.calc_holo\<close> reads from its scatterer.\<close>

record dda_scatterer =
  sc_center :: "real \<times> real \<times> real"
  sc_r :: real
  sc_n :: complex
  sc_z :: real

record hologram =
  holo_pixels :: "real list list"
  holo_optics :: optics

text \<open>
  \<^verbatim>\<open>DDA.__init__\<close>: \<^verbatim>\<open>subprocess.check_output(['adda', '-V'])\<close> raises
  \<^verbatim>\<open>OSError\<close> when there is no such program and \<^verbatim>\<open>CalledProcessError\<close> on a
  non-zero exit status; both become \<^verbatim>\<open>DependencyMissing('adda')\<close>. The constructor
  of the base class, which is not part of the sources here, keeps the arguments.
\<close>

definition DDA_init :: "adda_program option \<Rightarrow> optics \<Rightarrow> nat \<times> nat \<Rightarrow> dda_obj io" where
  "DDA_init adda optics imshape w =
     (case adda of
        None \<Rightarrow> (Inl (DependencyMissing ''adda''), w)
      | Some prog \<Rightarrow>
          (let w1 = w\<lparr>log := log w @ [Run [Literal ''adda'', Literal ''-V''] (cwd w)]\<rparr>
           in if version_status prog = 0
              then (Inr \<lparr>dda_optics = optics, dda_imshape = imshape\<rparr>, w1)
              else (Inl (DependencyMissing ''adda''), w1)))"

text \<open>\<^verbatim>\<open>DDA._write_adda_angles_file\<close>.\<close>

definition write_adda_angles_file :: "real list \<Rightarrow> real list \<Rightarrow> real list \<Rightarrow> nat \<Rightarrow> unit io" where
  "write_adda_angles_file theta phi kr temp_dir =
     (let angles = map2 (\<lambda>t p. [t * 180 / pi, p * 180 / pi]) theta phi in
      io_bind (open_file temp_dir ''scat_params.dat'') (\<lambda>u.
      io_bind (write_lines temp_dir ''scat_params.dat''
                 [Literal ''global_type=pairs'',
                  Formatted ''N={0}'' (int (length phi)),
                  Literal ''pairs='']) (\<lambda>u.
      io_bind (write_lines temp_dir ''scat_params.dat'' (map Cols angles)) (\<lambda>u.
      close_file temp_dir ''scat_params.dat''))))"

text \<open>\<^verbatim>\<open>subprocess.check_call(['adda', ...], cwd=temp_dir)\<close>.\<close>

definition add_run ::
    "nat \<Rightarrow> ((nat \<times> string) \<times> content) list \<Rightarrow> string \<times> line list option \<Rightarrow>
     ((nat \<times> string) \<times> content) list" where
  "add_run d fs run =
     (let fs1 = AList.update (d, fst run) Directory fs
      in case snd run of
           None \<Rightarrow> fs1
         | Some ls \<Rightarrow> AList.update (d, fst run @ ''/ampl_scatgrid'') (Text ls) fs1)"

definition run_adda :: "adda_program option \<Rightarrow> line list \<Rightarrow> nat \<Rightarrow> unit io" where
  "run_adda adda args temp_dir w =
     (case adda of
        None \<Rightarrow> (Inl OSError, w)
      | Some prog \<Rightarrow>
          (let outcome = adda_run prog args (read_lines w temp_dir ''scat_params.dat'');
               w1 = w\<lparr>log := log w @ [Run (Literal ''adda'' # args) (Some temp_dir)]\<rparr>;
               w2 = w1\<lparr>files := foldl (add_run temp_dir) (files w1) (snd outcome)\<rparr>
           in if fst outcome = 0 then (Inr (), w2) else (Inl CalledProcessError, w2)))"

definition print_dir :: "nat \<Rightarrow> unit io" where
  "print_dir d w = (Inr (), w\<lparr>log := log w @ [Print_dir d]\<rparr>)"

text \<open>The first exception of a sequence of evaluations, or all the values.\<close>

fun sequence_py :: "(py_error + 'a) list \<Rightarrow> py_error + 'a list" where
  "sequence_py [] = Inr []"
| "sequence_py (v # vs) =
     then_py v (\<lambda>x. then_py (sequence_py vs) (\<lambda>xs. Inr (x # xs)))"

text \<open>\<^verbatim>\<open>pixels.reshape(self.imshape)\<close>, row by row.\<close>

definition reshape :: "nat \<times> nat \<Rightarrow> 'a list \<Rightarrow> py_error + 'a list list" where
  "reshape shape xs =
     (if fst shape * snd shape = length xs
      then Inr (map (\<lambda>i. take (snd shape) (drop (i * snd shape) xs)) [0..<fst shape])
      else Inl ValueError)"

text \<open>
  Lines 153 to 160 of \<^verbatim>\<open>dda.py\<close>: one pixel for each point of the grid, from the
  matrix of the same index, and the image in the shape \<^verbatim>\<open>self.imshape\<close>. The Fortran
  routine \<^verbatim>\<open>mieangfuncs.paraxholocl\<close> is not part of the sources here and is a
  parameter.
\<close>

type_synonym paraxholocl_fn =
  "real \<Rightarrow> real \<Rightarrow> real \<Rightarrow> real \<Rightarrow> complex list list \<Rightarrow> real \<times> real \<Rightarrow> real \<Rightarrow> real"

definition hologram_pixels ::
    "paraxholocl_fn \<Rightarrow> dda_obj \<Rightarrow> dda_scatterer \<Rightarrow> real \<Rightarrow> (real \<times> real \<times> real) list \<Rightarrow>
     complex list list list \<Rightarrow> py_error + hologram" where
  "hologram_pixels paraxholocl self scatterer alpha grid scat_matr =
     (let theta = map (\<lambda>p. fst (snd p)) grid;
          phi = map (\<lambda>p. snd (snd p)) grid;
          kr = map fst grid in
      then_py (sequence_py (map (\<lambda>i.
                 if i < length scat_matr
                 then Inr (paraxholocl (kr ! i)
                             (sc_z scatterer * optics_wavevec (dda_optics self))
                             (theta ! i) (phi ! i) (scat_matr ! i)
                             (optics_polarization (dda_optics self)) alpha)
                 else Inl IndexError) [0..<length kr])) (\<lambda>pixels.
      then_py (reshape (dda_imshape self) pixels) (\<lambda>image.
      Inr \<lparr>holo_pixels = image, holo_optics = dda_optics self\<rparr>)))"

text \<open>
  \<^verbatim>\<open>DDA.calc_holo\<close>, up to its first \<^verbatim>\<open>return\<close>. The grid of the base class
  (\<^verbatim>\<open>_spherical_grid\<close>, rows \<open>(kr, theta, phi)\<close>) is not part of the sources here and
  is a parameter.
\<close>

definition calc_holo ::
    "adda_program option \<Rightarrow> (dda_obj \<Rightarrow> real \<times> real \<times> real \<Rightarrow> (real \<times> real \<times> real) list) \<Rightarrow>
     paraxholocl_fn \<Rightarrow> dda_obj \<Rightarrow> dda_scatterer \<Rightarrow> real \<Rightarrow> hologram io" where
  "calc_holo adda spherical_grid paraxholocl self scatterer alpha =
     io_bind mkdtemp (\<lambda>temp_dir.
     let grid = spherical_grid self (sc_center scatterer);
         theta = map (\<lambda>p. fst (snd p)) grid;
         phi = map (\<lambda>p. snd (snd p)) grid;
         kr = map fst grid in
     io_bind (write_adda_angles_file theta phi kr temp_dir) (\<lambda>u.
     io_bind (io_lift (str_div (Re (sc_n scatterer)) (optics_index (dda_optics self)))) (\<lambda>m_re.
     io_bind (io_lift (str_div (Im (sc_n scatterer)) (optics_index (dda_optics self)))) (\<lambda>m_im.
     io_bind (run_adda adda
                [Literal ''-scat_matr'', Literal ''ampl'', Literal ''-store_scat_grid'',
                 Literal ''-lambda'', Str_float (optics_med_wavelen (dda_optics self)),
                 Literal ''-eq_rad'', Str_float (sc_r scatterer),
                 Literal ''-m'', m_re, m_im] temp_dir) (\<lambda>u.
     io_bind (\<lambda>w. (first (glob temp_dir ''run000'' True w), w)) (\<lambda>result_dir.
     io_bind (read_file temp_dir (result_dir @ ''/ampl_scatgrid'')) (\<lambda>ls.
     io_bind (io_lift (adda_scat_matr ls)) (\<lambda>scat_matr.
     io_bind (print_dir temp_dir) (\<lambda>u.
     io_lift (hologram_pixels paraxholocl self scatterer alpha grid scat_matr))))))))))"

section \<open>Notions used in the statements\<close>

text \<open>
  The working directory still exists, so that \<^verbatim>\<open>os.getcwd()\<close> answers; and no entry
  is recorded yet under the name the next temporary directory will get.
\<close>

definition cwd_exists :: "world \<Rightarrow> bool" where
  "cwd_exists w = (case cwd w of None \<Rightarrow> True | Some d \<Rightarrow> d \<in> set (tmp_dirs w))"

definition next_tmp_unused :: "world \<Rightarrow> bool" where
  "next_tmp_unused w = list_all (\<lambda>e. fst (fst e) \<noteq> next_tmp w) (files w)"

text \<open>No division of the encoder is by zero.\<close>

definition divisors_nonzero :: "scatterer \<Rightarrow> real \<Rightarrow> real \<Rightarrow> bool" where
  "divisors_nonzero scatterer medium_wavevec medium_index =
     (medium_wavevec \<noteq> 0 \<and> medium_index \<noteq> 0 \<and>
      (case scatterer of
         Sphere r n \<Rightarrow> True
       | Axisymmetric r n rotation shape \<Rightarrow> snd r \<noteq> 0
       | Other_scatterer name \<Rightarrow> True))"

text \<open>
  The lines that \<open>write_scatterer\<close> is shown below to leave in the input file when
  nothing raises, and the table of angles after them.
\<close>

fun scalar_lines :: "scatterer \<Rightarrow> real \<Rightarrow> real \<Rightarrow> nat \<Rightarrow> line list" where
  "scalar_lines (Sphere r n) med_wavelen medium_index npoints =
     [Str_float r, Str_float med_wavelen, Str_float (Re n / medium_index),
      Str_float (Im n / medium_index), Str_int 1, Str_int 0, Str_int 0, Str_int (- 1),
      Str_int (int npoints)]"
| "scalar_lines (Axisymmetric r n rotation shape) med_wavelen medium_index npoints =
     (if shape = - 1 then [str_cube_root (snd r * (fst r)\<^sup>2)] else []) @
     (if shape = - 2 then [str_cube_root (3 / 2 * snd r * (fst r)\<^sup>2)] else []) @
     [Str_float med_wavelen, Str_float (Re n / medium_index), Str_float (Im n / medium_index),
      Str_float (fst r / snd r), Str_float (snd rotation * 180 / pi),
      Str_float (fst rotation * 180 / pi), Str_int shape, Str_int (int npoints)]"
| "scalar_lines (Other_scatterer name) med_wavelen medium_index npoints = []"

definition angle_rows :: "(real \<times> real \<times> real) list \<Rightarrow> line list" where
  "angle_rows pos = map (\<lambda>p. Cols [fst (snd p) * 180 / pi, snd (snd p) * 180 / pi]) pos"

text \<open>The text of \<^verbatim>\<open>tmatrix_tmp.inp\<close> in a temporary directory.\<close>

definition input_payload :: "world \<Rightarrow> nat \<Rightarrow> line list" where
  "input_payload w d = read_lines w d ''tmatrix_tmp.inp''"

text \<open>
  The command line of \<^verbatim>\<open>adda\<close> after the program's name, and the text of
  \<^verbatim>\<open>scat_params.dat\<close>, as \<open>calc_holo\<close> is shown below to produce them.
\<close>

definition adda_args :: "dda_obj \<Rightarrow> dda_scatterer \<Rightarrow> line list" where
  "adda_args self scatterer =
     [Literal ''-scat_matr'', Literal ''ampl'', Literal ''-store_scat_grid'',
      Literal ''-lambda'', Str_float (optics_med_wavelen (dda_optics self)),
      Literal ''-eq_rad'', Str_float (sc_r scatterer),
      Literal ''-m'',
      Str_float (Re (sc_n scatterer) / optics_index (dda_optics self)),
      Str_float (Im (sc_n scatterer) / optics_index (dda_optics self))]"

definition adda_params :: "(real \<times> real \<times> real) list \<Rightarrow> line list" where
  "adda_params grid =
     [Literal ''global_type=pairs'', Formatted ''N={0}'' (int (length grid)), Literal ''pairs=''] @
     angle_rows grid"

text \<open>The world in which \<open>calc_holo\<close> is shown below to start \<^verbatim>\<open>adda\<close>.\<close>

definition after_angles :: "world \<Rightarrow> (real \<times> real \<times> real) list \<Rightarrow> world" where
  "after_angles w grid =
     w\<lparr>tmp_dirs := tmp_dirs w @ [next_tmp w],
       next_tmp := Suc (next_tmp w),
       files := AList.update (next_tmp w, ''scat_params.dat'') (Text (adda_params grid)) (files w),
       log := log w @ [Mkdtemp (next_tmp w), Open_file (next_tmp w) ''scat_params.dat'',
                       Close_file (next_tmp w) ''scat_params.dat'']\<rparr>"

text \<open>A computation that removes no temporary directory.\<close>

definition keeps_dirs :: "'a io \<Rightarrow> bool" where
  "keeps_dirs m = (\<forall>w. set (tmp_dirs w) \<subseteq> set (tmp_dirs (snd (m w))))"

text \<open>
  A world to run examples in: the solver is installed, and nothing has happened yet. The
  example solvers ignore their input and write a fixed table.
\<close>

definition fresh_world :: world where
  "fresh_world =
     \<lparr>package_exe = True, tmp_dirs = [], next_tmp = 0, files = [], cwd = None, log = []\<rparr>"

definition fixed_output :: "line list \<Rightarrow> tmatrix_program" where
  "fixed_output ls inp = (0, Some ls)"

definition two_rows :: "line list" where
  "two_rows = [Cols [1, 0, 2, 0, 3, 0, 4, 0], Cols [5, 0, 6, 0, 7, 0, 8, 0]]"

text \<open>
  A solver that exits with status 0 and writes nothing, the sphere of the end-to-end
  scenario, and three sampling points.
\<close>

definition silent_solver :: tmatrix_program where
  "silent_solver inp = (0, None)"

definition example_tmatrix_sphere :: scatterer where
  "example_tmatrix_sphere = Sphere (1 / 2) (Complex (158 / 100) (1 / 10000))"

definition three_points :: "(real \<times> real \<times> real) list" where
  "three_points = [(100, 0, 0), (100, pi / 2, pi), (100, pi, 0)]"

text \<open>
  For the DDA theory: an installed \<^verbatim>\<open>adda\<close> that leaves the given run directories,
  one whose version check fails, a grid of two points for an image of shape \<open>(1, 2)\<close>,
  and, in place of the Fortran routine, the real part of the upper right entry of the
  matrix it is given.
\<close>

definition adda_leaving :: "(string \<times> line list option) list \<Rightarrow> adda_program" where
  "adda_leaving runs = \<lparr>version_status = 0, adda_run = (\<lambda>args inp. (0, runs))\<rparr>"

definition adda_broken :: adda_program where
  "adda_broken = \<lparr>version_status = 1, adda_run = (\<lambda>args inp. (1, []))\<rparr>"

definition example_optics :: optics where
  "example_optics =
     \<lparr>optics_med_wavelen = 1 / 2, optics_index = 4 / 3, optics_wavevec = 3 * pi,
       optics_polarization = (1, 0)\<rparr>"

definition example_dda :: dda_obj where
  "example_dda = \<lparr>dda_optics = example_optics, dda_imshape = (1, 2)\<rparr>"

definition example_sphere :: dda_scatterer where
  "example_sphere = \<lparr>sc_center = (0, 0, 10), sc_r = 1 / 2, sc_n = Complex 2 0, sc_z = 10\<rparr>"

definition two_points :: "dda_obj \<Rightarrow> real \<times> real \<times> real \<Rightarrow> (real \<times> real \<times> real) list" where
  "two_points self center = [(100, 0, 0), (100, pi / 2, pi)]"

definition upper_right :: paraxholocl_fn where
  "upper_right kr kz theta phi scat_matr polarization alpha = Re (scat_matr ! 0 ! 1)"

definition grid_table :: "line list" where
  "grid_table =
     [Literal ''theta phi s1.r s1.i s2.r s2.i s3.r s3.i s4.r s4.i'',
      Cols [0, 0, 1, 0, 2, 0, 3, 0, 4, 0],
      Cols [90, 180, 5, 0, 6, 0, 7, 0, 8, 0]]"

definition other_table :: "line list" where
  "other_table =
     [Literal ''theta phi s1.r s1.i s2.r s2.i s3.r s3.i s4.r s4.i'',
      Cols [0, 0, 10, 0, 20, 0, 30, 0, 40, 0],
      Cols [90, 180, 50, 0, 60, 0, 70, 0, 80, 0]]"

text \<open>
  A table of three rows, and a grid of three points, to set against the grid and the
  table of two.
\<close>

definition long_table :: "line list" where
  "long_table =
     [Literal ''theta phi s1.r s1.i s2.r s2.i s3.r s3.i s4.r s4.i'',
      Cols [0, 0, 1, 0, 2, 0, 3, 0, 4, 0],
      Cols [90, 180, 5, 0, 6, 0, 7, 0, 8, 0],
      Cols [180, 0, 9, 0, 10, 0, 11, 0, 12, 0]]"

definition three_point_grid ::
    "dda_obj \<Rightarrow> real \<times> real \<times> real \<Rightarrow> (real \<times> real \<times> real) list" where
  "three_point_grid self center = three_points"


section \<open>Facts about reading a table\<close>

lemma parse_lines_Cols:
  "list_all (\<lambda>r. r \<noteq> []) rows \<Longrightarrow> parse_lines (map Cols rows) = Inr rows"
  by (induction rows) auto

lemma length8_cases:
  assumes "length r = 8"
  obtains a0 b0 a1 b1 a2 b2 a3 b3 where "r = [a0, b0, a1, b1, a2, b2, a3, b3]"
proof -
  from assms have "length r = Suc (Suc (Suc (Suc (Suc (Suc (Suc (Suc 0)))))))"
    by simp
  then show ?thesis
    using that by (auto simp: length_Suc_conv)
qed

lemma every_other_8:
  assumes "length r = 8"
  shows "every_other r = [r ! 0, r ! 2, r ! 4, r ! 6]"
    and "every_other (drop (Suc 0) r) = [r ! 1, r ! 3, r ! 5, r ! 7]"
  using assms by (auto elim!: length8_cases)

lemma upt_two: "[0..<0 + Suc 0 + Suc 0] = [0, Suc 0]"
  by simp

lemma np_transpose_2x2:
  assumes "length b = length a" "length c = length a" "length d = length a"
  shows "np_transpose [[a, b], [c, d]] = map (\<lambda>k. [[a ! k, c ! k], [b ! k, d ! k]]) [0..<length a]"
  unfolding np_transpose_def Let_def
  by (simp only: list.case list.size length_Cons upt_two list.map nth_Cons_0 nth_Cons_Suc)

lemma loadtxt_rows:
  assumes "2 \<le> length rows" "list_all (\<lambda>r. length r = n) rows" "2 \<le> n"
  shows "(case rows of [] \<Rightarrow> Inr (Arr1 [])
           | r # rs \<Rightarrow>
               if \<not> list_all (\<lambda>x. length x = length r) rs then Inl ValueError
               else if rs = [] then
                 (if length r = 1 then Inr (Arr0 (hd r)) else Inr (Arr1 r))
               else if length r = 1 then Inr (Arr1 (map hd rows))
               else Inr (Arr2 rows)) = Inr (Arr2 rows)"
proof -
  obtain r r' rs where rows: "rows = r # r' # rs"
    using assms(1) by (cases rows; cases "tl rows"; auto)
  show ?thesis
    using assms(2,3) unfolding rows by (auto simp: list_all_iff)
qed

lemma loadtxt_table:
  assumes "2 \<le> length rows" "list_all (\<lambda>r. length r = n) rows" "2 \<le> n"
  shows "loadtxt 0 (map Cols rows) = Inr (Arr2 rows)"
    and "loadtxt 1 (header # map Cols rows) = Inr (Arr2 rows)"
proof -
  have ne: "list_all (\<lambda>r. r \<noteq> []) rows"
    using assms(2,3) by (auto simp: list_all_iff)
  show "loadtxt 0 (map Cols rows) = Inr (Arr2 rows)"
    by (simp add: loadtxt_def parse_lines_Cols[OF ne] loadtxt_rows[OF assms])
  show "loadtxt 1 (header # map Cols rows) = Inr (Arr2 rows)"
    by (simp add: loadtxt_def parse_lines_Cols[OF ne] loadtxt_rows[OF assms])
qed

lemma ncols_map4: "rows \<noteq> [] \<Longrightarrow> ncols (map (\<lambda>r. [f0 r, f1 r, f2 r, f3 r]) rows) = 4"
  by (cases rows) (simp_all add: ncols_def)

lemma column_map4:
  assumes "rows \<noteq> []"
  shows "column 0 (map (\<lambda>r. [f0 r, f1 r, f2 r, f3 r]) rows) = Inr (map f0 rows)"
    and "column 1 (map (\<lambda>r. [f0 r, f1 r, f2 r, f3 r]) rows) = Inr (map f1 rows)"
    and "column 2 (map (\<lambda>r. [f0 r, f1 r, f2 r, f3 r]) rows) = Inr (map f2 rows)"
    and "column 3 (map (\<lambda>r. [f0 r, f1 r, f2 r, f3 r]) rows) = Inr (map f3 rows)"
proof -
  note nc = ncols_map4[OF assms, of f0 f1 f2 f3]
  show "column 0 (map (\<lambda>r. [f0 r, f1 r, f2 r, f3 r]) rows) = Inr (map f0 rows)"
    by (simp add: column_def nc)
  show "column 1 (map (\<lambda>r. [f0 r, f1 r, f2 r, f3 r]) rows) = Inr (map f1 rows)"
    by (simp add: column_def nc)
  show "column 2 (map (\<lambda>r. [f0 r, f1 r, f2 r, f3 r]) rows) = Inr (map f2 rows)"
    by (simp add: column_def nc)
  show "column 3 (map (\<lambda>r. [f0 r, f1 r, f2 r, f3 r]) rows) = Inr (map f3 rows)"
    by (simp add: column_def nc)
qed

lemma add_real_imag_map4:
  assumes "rows \<noteq> []"
  shows "add_real_imag (map (\<lambda>r. [a0 r, a1 r, a2 r, a3 r]) rows)
              (map (\<lambda>r. [b0 r, b1 r, b2 r, b3 r]) rows) =
        Inr (map (\<lambda>r. [Complex (a0 r) (b0 r), Complex (a1 r) (b1 r),
                        Complex (a2 r) (b2 r), Complex (a3 r) (b3 r)]) rows)"
  unfolding add_real_imag_def
  by (simp add: ncols_map4[OF assms] zip_map_map zip_same_conv_map combine_row_def)

lemma transpose_columns:
  "np_transpose [[map f0 rows, map f1 rows], [map f2 rows, map f3 rows]] =
     map (\<lambda>r. [[f0 r, f2 r], [f1 r, f3 r]]) rows"
proof -
  have "np_transpose [[map f0 rows, map f1 rows], [map f2 rows, map f3 rows]] =
     map (\<lambda>k. [[map f0 rows ! k, map f2 rows ! k], [map f1 rows ! k, map f3 rows ! k]])
       [0..<length (map f0 rows)]"
    by (rule np_transpose_2x2) simp_all
  also have "\<dots> = map (\<lambda>r. [[f0 r, f2 r], [f1 r, f3 r]]) rows"
    by (rule nth_equalityI) simp_all
  finally show ?thesis .
qed

lemma tmatrix_scat_matr_rows:
  assumes "2 \<le> length rows" "list_all (\<lambda>r. length r = 8) rows"
  shows "tmatrix_scat_matr med_wavelen (map Cols rows) =
     Inr (map (\<lambda>r. [[Complex (r ! 0) (r ! 1) * scale_factor med_wavelen,
                      - (Complex (r ! 4) (r ! 5) * scale_factor med_wavelen)],
                     [Complex (r ! 2) (r ! 3) * scale_factor med_wavelen,
                      - (Complex (r ! 6) (r ! 7) * scale_factor med_wavelen)]]) rows)"
proof -
  have ne: "rows \<noteq> []" using assms(1) by auto
  have len: "\<And>x. x \<in> set rows \<Longrightarrow> length x = 8"
    using assms(2) by (simp add: list_all_iff)
  have lt: "loadtxt 0 (map Cols rows) = Inr (Arr2 rows)"
    by (rule loadtxt_table(1)[OF assms]) simp
  have re: "columns_from 0 (Arr2 rows) = Inr (map (\<lambda>r. [r ! 0, r ! 2, r ! 4, r ! 6]) rows)"
    unfolding columns_from_def using len by (simp add: every_other_8(1))
  have im: "columns_from 1 (Arr2 rows) = Inr (map (\<lambda>r. [r ! 1, r ! 3, r ! 5, r ! 7]) rows)"
    unfolding columns_from_def using len by (simp add: every_other_8(2))
  have s: "map (map (\<lambda>z. z * scale_factor med_wavelen))
             (map (\<lambda>r. [Complex (r ! 0) (r ! 1), Complex (r ! 2) (r ! 3),
                        Complex (r ! 4) (r ! 5), Complex (r ! 6) (r ! 7)]) rows) =
           map (\<lambda>r. [Complex (r ! 0) (r ! 1) * scale_factor med_wavelen,
                      Complex (r ! 2) (r ! 3) * scale_factor med_wavelen,
                      Complex (r ! 4) (r ! 5) * scale_factor med_wavelen,
                      Complex (r ! 6) (r ! 7) * scale_factor med_wavelen]) rows"
    by simp
  have neg: "\<And>f :: real list \<Rightarrow> complex. map uminus (map f rows) = map (\<lambda>r. - f r) rows"
    by simp
  show ?thesis
    unfolding tmatrix_scat_matr_def
    by (simp only: lt then_py_def sum.case re im add_real_imag_map4[OF ne] Let_def s
        column_map4[OF ne] neg transpose_columns)
qed

section \<open>The paths through the T-matrix computation\<close>

lemmas io_defs = io_bind_def io_return_def io_raise_def io_lift_def mkdtemp_def getcwd_def chdir_def copy_exe_def
  open_file_def read_lines_def write_lines_def close_file_def rmtree_def py_div_def str_div_def then_py_def

lemma write_input_ok:
  assumes "package_exe w" "cwd_exists w" "can_handle scatterer"
    "divisors_nonzero scatterer medium_wavevec medium_index"
  shows "tmatrix_write_input self scatterer pos medium_wavevec medium_index w =
     (Inr (next_tmp w, cwd w, 2 * pi / medium_wavevec),
      w\<lparr>tmp_dirs := tmp_dirs w @ [next_tmp w],
        next_tmp := Suc (next_tmp w),
        files := AList.update (next_tmp w, ''tmatrix_tmp.inp'')
                   (Text (scalar_lines scatterer (2 * pi / medium_wavevec) medium_index (length pos)
                          @ angle_rows pos))
                   (AList.update (next_tmp w, ''S.exe'') Executable (files w)),
        cwd := Some (next_tmp w),
        log := log w @ [Mkdtemp (next_tmp w), Copy_exe (next_tmp w), Chdir (Some (next_tmp w)),
                        Open_file (next_tmp w) ''tmatrix_tmp.inp'',
                        Close_file (next_tmp w) ''tmatrix_tmp.inp'']\<rparr>)"
proof (cases scatterer)
  case (Sphere r n)
  then show ?thesis using assms
    by (auto simp add: tmatrix_write_input_def write_scatterer_def io_defs cwd_exists_def
        divisors_nonzero_def angle_rows_def AList.update_conv' comp_def split: option.splits)
next
  case (Axisymmetric r n rot shape)
  then show ?thesis using assms
    by (auto simp add: tmatrix_write_input_def write_scatterer_def io_defs cwd_exists_def
        divisors_nonzero_def angle_rows_def AList.update_conv' comp_def split: option.splits)
next
  case (Other_scatterer x)
  then show ?thesis using assms by (simp add: can_handle_def)
qed

lemma first_glob_exact:
  "first (glob d name False w) =
     (if (d, name) \<in> fst ` set (files w) \<and> CHR ''/'' \<notin> set name then Inr name else Inl IndexError)"
proof -
  have "\<And>fs. first (map (\<lambda>e. snd (fst e))
       (filter (\<lambda>e. fst (fst e) = d \<and> CHR ''/'' \<notin> set (snd (fst e)) \<and> snd (fst e) = name) fs)) =
     (if (d, name) \<in> fst ` set fs \<and> CHR ''/'' \<notin> set name then Inr name else Inl IndexError)"
    subgoal for fs
      by (induction fs) (auto simp: first_def split: list.splits)
    done
  from this[of "files w"] show ?thesis unfolding glob_def by simp
qed

lemma fresh_no_entry:
  "next_tmp_unused w \<Longrightarrow> (next_tmp w, name) \<notin> fst ` set (files w)"
  by (auto simp: next_tmp_unused_def list_all_iff)


lemma raw_scat_matrs_run:
  assumes "package_exe w" "cwd_exists w" "can_handle scatterer"
    "divisors_nonzero scatterer medium_wavevec medium_index"
    "S_exe (scalar_lines scatterer (2 * pi / medium_wavevec) medium_index (length pos) @ angle_rows pos) = (0, Some out)"
  shows "fst (raw_scat_matrs S_exe self scatterer pos medium_wavevec medium_index w) =
           tmatrix_scat_matr (2 * pi / medium_wavevec) out"
    and "tmp_dirs (snd (raw_scat_matrs S_exe self scatterer pos medium_wavevec medium_index w)) =
           (case tmatrix_scat_matr (2 * pi / medium_wavevec) out of
              Inl e \<Rightarrow> tmp_dirs w @ [next_tmp w]
            | Inr m \<Rightarrow> if delete self then filter (\<lambda>x. x \<noteq> next_tmp w) (tmp_dirs w)
                       else tmp_dirs w @ [next_tmp w])"
  using assms
   apply (simp_all add: raw_scat_matrs_def write_input_ok io_bind_def Let_def run_tmat_def read_lines_def
        AList.update_conv' first_glob_exact read_file_def io_lift_def AList.dom_update)
   apply (cases "tmatrix_scat_matr (2 * pi / medium_wavevec) out")
    apply (simp_all add: chdir_def rmtree_def io_return_def io_bind_def)[2]
   apply (cases "tmatrix_scat_matr (2 * pi / medium_wavevec) out")
    apply (simp_all add: chdir_def rmtree_def io_return_def io_bind_def)
  done

lemma raw_scat_matrs_solver_fails:
  assumes "package_exe w" "cwd_exists w" "can_handle scatterer"
    "divisors_nonzero scatterer medium_wavevec medium_index"
    "fst (S_exe (scalar_lines scatterer (2 * pi / medium_wavevec) medium_index (length pos) @ angle_rows pos)) \<noteq> 0"
  shows "fst (raw_scat_matrs S_exe self scatterer pos medium_wavevec medium_index w) = Inl CalledProcessError"
    and "tmp_dirs (snd (raw_scat_matrs S_exe self scatterer pos medium_wavevec medium_index w)) = tmp_dirs w @ [next_tmp w]"
  using assms
  by (simp_all add: raw_scat_matrs_def write_input_ok io_bind_def Let_def run_tmat_def read_lines_def
        AList.update_conv' split: option.splits)

lemma raw_scat_matrs_no_output:
  assumes "package_exe w" "cwd_exists w" "next_tmp_unused w" "can_handle scatterer"
    "divisors_nonzero scatterer medium_wavevec medium_index"
    "S_exe (scalar_lines scatterer (2 * pi / medium_wavevec) medium_index (length pos) @ angle_rows pos) = (0, None)"
  shows "fst (raw_scat_matrs S_exe self scatterer pos medium_wavevec medium_index w) = Inl IndexError"
    and "tmp_dirs (snd (raw_scat_matrs S_exe self scatterer pos medium_wavevec medium_index w)) = tmp_dirs w @ [next_tmp w]"
  using assms fresh_no_entry[of w "''tmatrix_tmp.out''"]
  by (simp_all add: raw_scat_matrs_def write_input_ok io_bind_def Let_def run_tmat_def read_lines_def
        AList.update_conv' first_glob_exact AList.dom_update)


lemma raw_scat_matrs_no_exe:
  assumes "\<not> package_exe w" "cwd_exists w"
  shows "raw_scat_matrs S_exe self scatterer pos medium_wavevec medium_index w =
     (Inl FileNotFoundError,
      w\<lparr>tmp_dirs := tmp_dirs w @ [next_tmp w], next_tmp := Suc (next_tmp w),
        log := log w @ [Mkdtemp (next_tmp w)]\<rparr>)"
  using assms
  by (auto simp add: raw_scat_matrs_def tmatrix_write_input_def io_defs cwd_exists_def split: option.splits)




section \<open>Facts about the DDA theory\<close>

lemma length10_cases:
  assumes "length r = 10"
  obtains t p a0 b0 a1 b1 a2 b2 a3 b3 where "r = [t, p, a0, b0, a1, b1, a2, b2, a3, b3]"
proof -
  from assms have "length r = Suc (Suc (Suc (Suc (Suc (Suc (Suc (Suc (Suc (Suc 0)))))))))"
    by simp
  then show ?thesis
    using that by (auto simp: length_Suc_conv)
qed

lemma every_other_10:
  assumes "length r = 10"
  shows "every_other (drop 2 r) = [r ! 2, r ! 4, r ! 6, r ! 8]"
    and "every_other (drop 3 r) = [r ! 3, r ! 5, r ! 7, r ! 9]"
  using assms by (auto elim!: length10_cases)

lemma adda_scat_matr_rows:
  assumes "2 \<le> length rows" "list_all (\<lambda>r. length r = 10) rows"
  shows "adda_scat_matr (header # map Cols rows) =
     Inr (map (\<lambda>r. [[Complex (r ! 4) (r ! 5), Complex (r ! 8) (r ! 9)],
                     [Complex (r ! 6) (r ! 7), Complex (r ! 2) (r ! 3)]]) rows)"
proof -
  have ne: "rows \<noteq> []" using assms(1) by auto
  have len: "\<And>x. x \<in> set rows \<Longrightarrow> length x = 10"
    using assms(2) by (simp add: list_all_iff)
  have lt: "loadtxt 1 (header # map Cols rows) = Inr (Arr2 rows)"
    by (rule loadtxt_table(2)[OF assms]) simp
  have re: "columns_from 2 (Arr2 rows) = Inr (map (\<lambda>r. [r ! 2, r ! 4, r ! 6, r ! 8]) rows)"
    unfolding columns_from_def using len by (simp add: every_other_10(1))
  have im: "columns_from 3 (Arr2 rows) = Inr (map (\<lambda>r. [r ! 3, r ! 5, r ! 7, r ! 9]) rows)"
    unfolding columns_from_def using len by (simp add: every_other_10(2))
  show ?thesis
    unfolding adda_scat_matr_def
    by (simp only: lt then_py_def sum.case re im add_real_imag_map4[OF ne]
        column_map4[OF ne] transpose_columns)
qed

lemma DDA_init_missing:
  assumes "adda = None \<or> (\<exists>prog. adda = Some prog \<and> version_status prog \<noteq> 0)"
  shows "fst (DDA_init adda optics imshape w) = Inl (DependencyMissing ''adda'')"
    and "tmp_dirs (snd (DDA_init adda optics imshape w)) = tmp_dirs w"
    and "files (snd (DDA_init adda optics imshape w)) = files w"
    and "next_tmp (snd (DDA_init adda optics imshape w)) = next_tmp w"
  using assms by (auto simp: DDA_init_def Let_def)

lemma fresh_world_ok:
  "package_exe fresh_world" "cwd_exists fresh_world" "next_tmp_unused fresh_world"
  "next_tmp fresh_world = 0" "tmp_dirs fresh_world = []" "log fresh_world = []"
  "files fresh_world = []" "cwd fresh_world = None"
  by (simp_all add: fresh_world_def cwd_exists_def next_tmp_unused_def)

lemma keeps_dirs_bind:
  assumes "keeps_dirs m" "\<And>x. keeps_dirs (f x)"
  shows "keeps_dirs (io_bind m f)"
  unfolding keeps_dirs_def
proof
  fix w
  show "set (tmp_dirs w) \<subseteq> set (tmp_dirs (snd (io_bind m f w)))"
  proof (cases "m w")
    case (Pair r w1)
    have 1: "set (tmp_dirs w) \<subseteq> set (tmp_dirs w1)"
      using assms(1) Pair unfolding keeps_dirs_def by (metis snd_conv)
    show ?thesis
    proof (cases r)
      case (Inl e)
      then show ?thesis using 1 Pair by (simp add: io_bind_def)
    next
      case (Inr x)
      have "set (tmp_dirs w1) \<subseteq> set (tmp_dirs (snd (f x w1)))"
        using assms(2)[of x] unfolding keeps_dirs_def by blast
      then show ?thesis using 1 Pair Inr by (simp add: io_bind_def)
    qed
  qed
qed

lemma keeps_dirs_prims:
  "keeps_dirs (io_return x)"
  "keeps_dirs (io_raise e)"
  "keeps_dirs (io_lift v)"
  "keeps_dirs mkdtemp"
  "keeps_dirs (open_file d name)"
  "keeps_dirs (write_lines d name ls)"
  "keeps_dirs (close_file d name)"
  "keeps_dirs (read_file d name)"
  "keeps_dirs (print_dir d)"
  "keeps_dirs (run_adda adda args d)"
  "keeps_dirs (\<lambda>w. (g w, w))"
  by (auto simp: keeps_dirs_def io_return_def io_raise_def io_lift_def mkdtemp_def open_file_def
      write_lines_def close_file_def read_file_def print_dir_def run_adda_def Let_def
      split: option.splits content.splits)

lemma keeps_dirs_angles: "keeps_dirs (write_adda_angles_file theta phi kr d)"
  unfolding write_adda_angles_file_def Let_def
  by (intro keeps_dirs_bind keeps_dirs_prims)

lemma calc_holo_keeps_temp_dir:
  "next_tmp w \<in> set (tmp_dirs (snd (calc_holo adda spherical_grid paraxholocl self scatterer alpha w)))"
proof -
  define rest where "rest = (\<lambda>temp_dir.
     let grid = spherical_grid self (sc_center scatterer);
         theta = map (\<lambda>p. fst (snd p)) grid;
         phi = map (\<lambda>p. snd (snd p)) grid;
         kr = map fst grid in
     io_bind (write_adda_angles_file theta phi kr temp_dir) (\<lambda>u.
     io_bind (io_lift (str_div (Re (sc_n scatterer)) (optics_index (dda_optics self)))) (\<lambda>m_re.
     io_bind (io_lift (str_div (Im (sc_n scatterer)) (optics_index (dda_optics self)))) (\<lambda>m_im.
     io_bind (run_adda adda
                [Literal ''-scat_matr'', Literal ''ampl'', Literal ''-store_scat_grid'',
                 Literal ''-lambda'', Str_float (optics_med_wavelen (dda_optics self)),
                 Literal ''-eq_rad'', Str_float (sc_r scatterer),
                 Literal ''-m'', m_re, m_im] temp_dir) (\<lambda>u.
     io_bind (\<lambda>w. (first (glob temp_dir ''run000'' True w), w)) (\<lambda>result_dir.
     io_bind (read_file temp_dir (result_dir @ ''/ampl_scatgrid'')) (\<lambda>ls.
     io_bind (io_lift (adda_scat_matr ls)) (\<lambda>scat_matr.
     io_bind (print_dir temp_dir) (\<lambda>u.
     io_lift (hologram_pixels paraxholocl self scatterer alpha grid scat_matr))))))))))"
  have k: "keeps_dirs (rest d)" for d
    unfolding rest_def Let_def
    by (intro keeps_dirs_bind keeps_dirs_prims(3,8,9,10,11) keeps_dirs_angles)
  have c: "calc_holo adda spherical_grid paraxholocl self scatterer alpha = io_bind mkdtemp rest"
    unfolding calc_holo_def rest_def by (rule refl)
  have "snd (io_bind mkdtemp rest w) =
        snd (rest (next_tmp w) (w\<lparr>tmp_dirs := tmp_dirs w @ [next_tmp w],
               next_tmp := Suc (next_tmp w), log := log w @ [Mkdtemp (next_tmp w)]\<rparr>))"
    by (simp add: io_bind_def mkdtemp_def)
  moreover have "next_tmp w \<in> set (tmp_dirs (w\<lparr>tmp_dirs := tmp_dirs w @ [next_tmp w],
               next_tmp := Suc (next_tmp w), log := log w @ [Mkdtemp (next_tmp w)]\<rparr>))"
    by simp
  moreover have "set (tmp_dirs (w\<lparr>tmp_dirs := tmp_dirs w @ [next_tmp w],
               next_tmp := Suc (next_tmp w), log := log w @ [Mkdtemp (next_tmp w)]\<rparr>)) \<subseteq>
        set (tmp_dirs (snd (rest (next_tmp w) (w\<lparr>tmp_dirs := tmp_dirs w @ [next_tmp w],
               next_tmp := Suc (next_tmp w), log := log w @ [Mkdtemp (next_tmp w)]\<rparr>))))"
    using k[of "next_tmp w"] unfolding keeps_dirs_def by (rule allE)
  ultimately show ?thesis
    unfolding c by (simp only: subsetD)
qed

lemma glob_keys:
  "glob d prefix star w =
     map snd (filter (\<lambda>k. fst k = d \<and> CHR ''/'' \<notin> set (snd k) \<and>
                          (if star then take (length prefix) (snd k) = prefix else snd k = prefix))
                (map fst (files w)))"
  by (simp add: glob_def filter_map comp_def)

lemma keys_add_run:
  "\<exists>ks. map fst (add_run d fs run) = map fst fs @ ks"
  by (cases "snd run") (auto simp: add_run_def Let_def AList.update_keys)

lemma keys_foldl_add_run:
  "\<exists>ks. map fst (foldl (add_run d) fs runs) = map fst fs @ ks"
proof (induction runs arbitrary: fs)
  case Nil
  then show ?case by simp
next
  case (Cons run runs)
  obtain ks where 1: "map fst (add_run d fs run) = map fst fs @ ks"
    using keys_add_run by blast
  obtain ks' where 2: "map fst (foldl (add_run d) (add_run d fs run) runs) = map fst (add_run d fs run) @ ks'"
    using Cons.IH by blast
  show ?case using 1 2 by simp
qed

lemma map_of_add_run_other:
  "k \<noteq> (d, fst run) \<Longrightarrow> k \<noteq> (d, fst run @ ''/ampl_scatgrid'') \<Longrightarrow>
   map_of (add_run d fs run) k = map_of fs k"
  by (cases "snd run") (simp_all add: add_run_def Let_def AList.update_conv')

lemma map_of_foldl_add_run:
  "list_all (\<lambda>run. k \<noteq> (d, fst run) \<and> k \<noteq> (d, fst run @ ''/ampl_scatgrid'')) runs \<Longrightarrow>
   map_of (foldl (add_run d) fs runs) k = map_of fs k"
  by (induction runs arbitrary: fs) (simp_all add: map_of_add_run_other)

lemma first_filter_append:
  "filter P xs = [] \<Longrightarrow> P y \<Longrightarrow> first (map f (filter P (xs @ y # ys))) = Inr (f y)"
  by (simp add: first_def)

lemma angle_rows_map2:
  "map Cols (map2 (\<lambda>t p. [t * 180 / pi, p * 180 / pi]) (map (\<lambda>p. fst (snd p)) grid)
                (map (\<lambda>p. snd (snd p)) grid)) = angle_rows grid"
  by (simp add: angle_rows_def zip_map_map zip_same_conv_map split_beta)

lemma calc_holo_unfold:
  assumes "optics_index (dda_optics self) \<noteq> 0"
  shows "calc_holo adda spherical_grid paraxholocl self scatterer alpha w =
     io_bind (run_adda adda (adda_args self scatterer) (next_tmp w)) (\<lambda>u.
     io_bind (\<lambda>w'. (first (glob (next_tmp w) ''run000'' True w'), w')) (\<lambda>result_dir.
     io_bind (read_file (next_tmp w) (result_dir @ ''/ampl_scatgrid'')) (\<lambda>ls.
     io_bind (io_lift (adda_scat_matr ls)) (\<lambda>scat_matr.
     io_bind (print_dir (next_tmp w)) (\<lambda>u.
     io_lift (hologram_pixels paraxholocl self scatterer alpha
                (spherical_grid self (sc_center scatterer)) scat_matr))))))
       (after_angles w (spherical_grid self (sc_center scatterer)))"
  using assms
  unfolding calc_holo_def Let_def write_adda_angles_file_def angle_rows_map2
  by (simp add: io_bind_def mkdtemp_def
      open_file_def write_lines_def read_lines_def close_file_def io_lift_def str_div_def
      py_div_def then_py_def AList.update_conv' adda_args_def adda_params_def
      after_angles_def)

lemma glob_run000:
  "glob d ''run000'' True w =
     map snd (filter (\<lambda>k. fst k = d \<and> CHR ''/'' \<notin> set (snd k) \<and> take 6 (snd k) = ''run000'')
                (map fst (files w)))"
proof -
  have "length ''run000'' = 6" by simp
  then show ?thesis
    unfolding glob_keys by (simp only: if_True)
qed

lemma after_angles_facts:
  "read_lines (after_angles w grid) (next_tmp w) ''scat_params.dat'' = adda_params grid"
  "tmp_dirs (after_angles w grid) = tmp_dirs w @ [next_tmp w]"
  by (simp_all add: after_angles_def read_lines_def AList.update_conv')

lemma after_angles_keys:
  assumes "next_tmp_unused w"
  shows "map fst (files (after_angles w grid)) = map fst (files w) @ [(next_tmp w, ''scat_params.dat'')]"
  using fresh_no_entry[OF assms, of "''scat_params.dat''"]
  by (simp add: after_angles_def AList.update_keys)

lemma no_run_before:
  assumes "next_tmp_unused w"
  shows "filter (\<lambda>k. fst k = next_tmp w \<and> CHR ''/'' \<notin> set (snd k) \<and> take 6 (snd k) = ''run000'')
           (map fst (files (after_angles w grid))) = []"
proof -
  have "\<And>k. k \<in> set (map fst (files w)) \<Longrightarrow> fst k \<noteq> next_tmp w"
    using assms by (auto simp: next_tmp_unused_def list_all_iff)
  then show ?thesis
    unfolding after_angles_keys[OF assms] by (auto simp: filter_empty_conv)
qed

lemma run_adda_ok:
  assumes "adda_run prog args (read_lines w d ''scat_params.dat'') = (0, runs)"
  shows "run_adda (Some prog) args d w =
           (Inr (), w\<lparr>log := log w @ [Run (Literal ''adda'' # args) (Some d)],
                      files := foldl (add_run d) (files w) runs\<rparr>)"
  using assms by (simp add: run_adda_def Let_def)

lemma calc_holo_no_run:
  assumes idx: "optics_index (dda_optics self) \<noteq> 0"
    and fresh: "next_tmp_unused w"
    and run: "adda_run prog (adda_args self scatterer)
                (adda_params (spherical_grid self (sc_center scatterer))) = (0, [])"
  shows "fst (calc_holo (Some prog) spherical_grid paraxholocl self scatterer alpha w) = Inl IndexError"
proof -
  let ?grid = "spherical_grid self (sc_center scatterer)"
  let ?w2 = "after_angles w ?grid"
  have r: "run_adda (Some prog) (adda_args self scatterer) (next_tmp w) ?w2 =
           (Inr (), ?w2\<lparr>log := log ?w2 @ [Run (Literal ''adda'' # adda_args self scatterer) (Some (next_tmp w))],
                      files := foldl (add_run (next_tmp w)) (files ?w2) []\<rparr>)"
    by (rule run_adda_ok) (simp add: after_angles_facts run)
  show ?thesis
    unfolding calc_holo_unfold[OF idx]
    by (simp add: io_bind_def r glob_run000 no_run_before[OF fresh] first_def)
qed

lemma calc_holo_first_run:
  assumes idx: "optics_index (dda_optics self) \<noteq> 0"
    and fresh: "next_tmp_unused w"
    and run: "adda_run prog (adda_args self scatterer)
                (adda_params (spherical_grid self (sc_center scatterer))) =
              (0, (name, Some table) # rest)"
    and name: "take 6 name = ''run000''" "CHR ''/'' \<notin> set name"
    and rest: "list_all (\<lambda>run. fst run \<noteq> name \<and> CHR ''/'' \<notin> set (fst run)) rest"
  shows "fst (calc_holo (Some prog) spherical_grid paraxholocl self scatterer alpha w) =
           then_py (adda_scat_matr table)
             (hologram_pixels paraxholocl self scatterer alpha (spherical_grid self (sc_center scatterer)))"
proof -
  let ?d = "next_tmp w"
  let ?grid = "spherical_grid self (sc_center scatterer)"
  let ?w2 = "after_angles w ?grid"
  let ?Q = "\<lambda>k. fst k = ?d \<and> CHR ''/'' \<notin> set (snd k) \<and> take 6 (snd k) = ''run000''"
  define F1 where "F1 = add_run ?d (files ?w2) (name, Some table)"
  define w3 where "w3 = ?w2\<lparr>log := log ?w2 @ [Run (Literal ''adda'' # adda_args self scatterer) (Some ?d)],
                      files := foldl (add_run ?d) F1 rest\<rparr>"
  have r: "run_adda (Some prog) (adda_args self scatterer) ?d ?w2 = (Inr (), w3)"
    unfolding w3_def F1_def
    by (subst run_adda_ok[where runs = "(name, Some table) # rest"]) (simp_all add: after_angles_facts run)
  have notin: "(?d, name) \<notin> set (map fst (files ?w2))"
    using fresh_no_entry[OF fresh, of name] name(1)
    by (auto simp: after_angles_keys[OF fresh])
  have "\<exists>ks. map fst F1 = map fst (files ?w2) @ (?d, name) # ks"
    using notin by (auto simp: F1_def add_run_def Let_def AList.update_keys)
  then obtain ks where k1: "map fst F1 = map fst (files ?w2) @ (?d, name) # ks"
    by blast
  obtain ks' where k2: "map fst (foldl (add_run ?d) F1 rest) = map fst F1 @ ks'"
    using keys_foldl_add_run by blast
  have keys: "map fst (files w3) = map fst (files ?w2) @ (?d, name) # (ks @ ks')"
    by (simp add: w3_def k1 k2)
  have g: "first (glob ?d ''run000'' True w3) = Inr name"
    unfolding glob_run000 keys
    using first_filter_append[where P = ?Q and f = snd and xs = "map fst (files ?w2)"
        and y = "(?d, name)" and ys = "ks @ ks'"] no_run_before[OF fresh, of ?grid] name
    by simp
  have "map_of (foldl (add_run ?d) F1 rest) (?d, name @ ''/ampl_scatgrid'') =
        map_of F1 (?d, name @ ''/ampl_scatgrid'')"
  proof (rule map_of_foldl_add_run)
    have "CHR ''/'' \<in> set (name @ ''/ampl_scatgrid'')" by simp
    then show "list_all (\<lambda>run. (?d, name @ ''/ampl_scatgrid'') \<noteq> (?d, fst run) \<and>
                 (?d, name @ ''/ampl_scatgrid'') \<noteq> (?d, fst run @ ''/ampl_scatgrid'')) rest"
      using rest unfolding list_all_iff by (metis Pair_inject append_same_eq)
  qed
  also have "\<dots> = Some (Text table)"
    by (simp add: F1_def add_run_def Let_def AList.update_conv')
  finally have rd: "read_file ?d (name @ ''/ampl_scatgrid'') w3 = (Inr table, w3)"
    by (simp add: read_file_def w3_def)
  show ?thesis
    unfolding calc_holo_unfold[OF idx]
    by (cases "adda_scat_matr table")
       (simp_all add: io_bind_def r g rd io_lift_def print_dir_def then_py_def)
qed

lemma raw_scat_matrs_run_world:
  assumes "package_exe w" "cwd_exists w" "can_handle scatterer"
    "divisors_nonzero scatterer medium_wavevec medium_index"
    "S_exe (scalar_lines scatterer (2 * pi / medium_wavevec) medium_index (length pos) @ angle_rows pos) = (0, Some out)"
  shows "log (snd (raw_scat_matrs S_exe self scatterer pos medium_wavevec medium_index w)) =
           log w @ [Mkdtemp (next_tmp w), Copy_exe (next_tmp w), Chdir (Some (next_tmp w)),
                    Open_file (next_tmp w) ''tmatrix_tmp.inp'',
                    Close_file (next_tmp w) ''tmatrix_tmp.inp'',
                    Run [Literal ''./S.exe''] (Some (next_tmp w))] @
           (case tmatrix_scat_matr (2 * pi / medium_wavevec) out of
              Inl e \<Rightarrow> []
            | Inr m \<Rightarrow> Chdir (cwd w) # (if delete self then [Rmtree (next_tmp w)] else []))"
    and "\<not> delete self \<Longrightarrow>
         input_payload (snd (raw_scat_matrs S_exe self scatterer pos medium_wavevec medium_index w))
           (next_tmp w) =
         scalar_lines scatterer (2 * pi / medium_wavevec) medium_index (length pos) @ angle_rows pos"
  using assms
   apply (simp_all add: raw_scat_matrs_def write_input_ok io_bind_def Let_def run_tmat_def read_lines_def
        AList.update_conv' first_glob_exact read_file_def io_lift_def AList.dom_update input_payload_def)
   apply (cases "tmatrix_scat_matr (2 * pi / medium_wavevec) out")
    apply (simp_all add: chdir_def rmtree_def io_return_def io_bind_def)[2]
   apply (cases "tmatrix_scat_matr (2 * pi / medium_wavevec) out")
    apply (simp_all add: chdir_def rmtree_def io_return_def io_bind_def AList.update_conv')
  done

lemma two_rows_table: "two_rows = map Cols [[1, 0, 2, 0, 3, 0, 4, 0], [5, 0, 6, 0, 7, 0, 8, 0]]"
  by (simp add: two_rows_def)

lemma two_rows_matrices:
  "tmatrix_scat_matr (2 * pi) two_rows =
     Inr [[[- \<i>, 3 * \<i>], [- 2 * \<i>, 4 * \<i>]], [[- 5 * \<i>, 7 * \<i>], [- 6 * \<i>, 8 * \<i>]]]"
  unfolding two_rows_table
  by (subst tmatrix_scat_matr_rows) (simp_all add: scale_factor_def complex_eq_iff)

section \<open>The input of the T-matrix solver\<close>

text \<open>
  Claim C4. For a sphere, when the executable is staged and no division is by zero, the
  input file holds, in this order: the radius, the wavelength in the medium
  \<open>2 \<pi> / medium_wavevec\<close>, the real and the imaginary part of the refractive index, each
  divided by the index of the medium, the aspect ratio \<open>1\<close>, the two rotation angles
  \<open>0\<close> and \<open>0\<close>, the shape code \<open>-1\<close>, the number of sampling points, and then one row
  \<open>(theta, phi)\<close> in degrees for each sampling point.
\<close>

theorem sphere_payload:
  assumes "package_exe w" and "cwd_exists w" and "medium_wavevec \<noteq> 0" and "medium_index \<noteq> 0"
  shows "case tmatrix_write_input self (Sphere r n) pos medium_wavevec medium_index w of
           (result, w') \<Rightarrow>
             result = Inr (next_tmp w, cwd w, 2 * pi / medium_wavevec) \<and>
             input_payload w' (next_tmp w) =
               [Str_float r,
                Str_float (2 * pi / medium_wavevec),
                Str_float (Re n / medium_index),
                Str_float (Im n / medium_index),
                Str_int 1,
                Str_int 0,
                Str_int 0,
                Str_int (- 1),
                Str_int (int (length pos))] @
               map (\<lambda>p. Cols [fst (snd p) * 180 / pi, snd (snd p) * 180 / pi]) pos"
proof -
  have "can_handle (Sphere r n)" and "divisors_nonzero (Sphere r n) medium_wavevec medium_index"
    using assms by (simp_all add: can_handle_def divisors_nonzero_def)
  from write_input_ok[OF assms(1,2) this, of self pos] show ?thesis
    by (simp add: input_payload_def read_lines_def AList.update_conv' angle_rows_def)
qed

text \<open>The sphere of the end-to-end scenario, at one sampling point.\<close>

theorem sphere_payload_witness:
  "package_exe fresh_world \<and> cwd_exists fresh_world \<and> (1 :: real) \<noteq> 0 \<and> (133 / 100 :: real) \<noteq> 0 \<and>
   (case tmatrix_write_input (Tmatrix True) (Sphere (1 / 2) (Complex (158 / 100) (1 / 10000)))
           [(100, 0, pi)] 1 (133 / 100) fresh_world of
      (result, w') \<Rightarrow>
        result = Inr (0, None, 2 * pi) \<and>
        input_payload w' 0 =
          [Str_float (1 / 2), Str_float (2 * pi), Str_float (158 / 133), Str_float (1 / 13300),
           Str_int 1, Str_int 0, Str_int 0, Str_int (- 1), Str_int 1, Cols [0, 180]])"
proof -
  have h: "package_exe fresh_world" "cwd_exists fresh_world" "(1 :: real) \<noteq> 0" "(133 / 100 :: real) \<noteq> 0"
    by (simp_all add: fresh_world_ok)
  from sphere_payload[OF h, where self = "Tmatrix True" and r = "1 / 2"
      and n = "Complex (158 / 100) (1 / 10000)" and pos = "[(100, 0, pi)]"] h
  show ?thesis
    by (simp add: fresh_world_ok split: prod.splits)
qed

text \<open>
  Claim C3. For an axisymmetric scatterer with radii \<open>(r0, r1)\<close>, the first line of the
  input file is \<open>(r1 r0\<^sup>2)\<^bsup>1/3\<^esup>\<close> when the shape tag is \<open>-1\<close> and
  \<open>(1.5 r1 r0\<^sup>2)\<^bsup>1/3\<^esup>\<close> when it is \<open>-2\<close>, and the aspect-ratio line, the
  fifth, is \<open>r0 / r1\<close>. The radius \<open>r1\<close> is positive, so that the division is defined
  and the cube root is that of a non-negative number.
\<close>

theorem axisymmetric_radius_and_aspect_ratio:
  assumes "package_exe w" and "cwd_exists w" and "medium_wavevec \<noteq> 0" and "medium_index \<noteq> 0"
    and "0 < r1" and "shape = - 1 \<or> shape = - 2"
  shows "case tmatrix_write_input self (Axisymmetric (r0, r1) n rotation shape) pos
                medium_wavevec medium_index w of
           (result, w') \<Rightarrow>
             result = Inr (next_tmp w, cwd w, 2 * pi / medium_wavevec) \<and>
             input_payload w' (next_tmp w) ! 0 =
               Str_float ((if shape = - 1 then r1 * r0\<^sup>2 else 3 / 2 * r1 * r0\<^sup>2) powr (1 / 3)) \<and>
             input_payload w' (next_tmp w) ! 4 = Str_float (r0 / r1)"
proof -
  have "can_handle (Axisymmetric (r0, r1) n rotation shape)"
    and "divisors_nonzero (Axisymmetric (r0, r1) n rotation shape) medium_wavevec medium_index"
    using assms by (simp_all add: can_handle_def divisors_nonzero_def)
  from write_input_ok[OF assms(1,2) this, of self pos] assms(5,6) show ?thesis
    by (auto simp add: input_payload_def read_lines_def AList.update_conv' str_cube_root_def)
qed

text \<open>Radii \<open>(3, 2)\<close> with the shape tag \<open>-1\<close>: the volume-equivalent radius is \<open>18\<^bsup>1/3\<^esup>\<close>.\<close>

theorem axisymmetric_radius_and_aspect_ratio_witness:
  "package_exe fresh_world \<and> cwd_exists fresh_world \<and> (1 :: real) \<noteq> 0 \<and> (1 :: real) \<noteq> 0 \<and>
   (0 :: real) < 2 \<and> ((- 1 :: int) = - 1 \<or> (- 1 :: int) = - 2) \<and>
   (case tmatrix_write_input (Tmatrix True) (Axisymmetric (3, 2) (Complex 2 0) (0, 0) (- 1))
           [(100, 0, pi)] 1 1 fresh_world of
      (result, w') \<Rightarrow>
        result = Inr (0, None, 2 * pi) \<and>
        input_payload w' 0 ! 0 = Str_float (18 powr (1 / 3)) \<and>
        input_payload w' 0 ! 4 = Str_float (3 / 2))"
proof -
  have h: "package_exe fresh_world" "cwd_exists fresh_world" "(1 :: real) \<noteq> 0" "(1 :: real) \<noteq> 0"
    "(0 :: real) < 2" "(- 1 :: int) = - 1 \<or> (- 1 :: int) = - 2"
    by (simp_all add: fresh_world_ok)
  from axisymmetric_radius_and_aspect_ratio[OF h, where self = "Tmatrix True" and ?r0.0 = 3
      and n = "Complex 2 0" and rotation = "(0, 0)" and pos = "[(100, 0, pi)]"] h
  show ?thesis
    by (simp add: fresh_world_ok split: prod.splits)
qed

section \<open>The scattering matrices of the T-matrix solver\<close>

text \<open>
  Claim C1. The columns of a row of \<^verbatim>\<open>tmatrix_tmp.out\<close> are paired into
  \<open>s11, s12, s21, s22\<close> and each is multiplied by \<open>-2 \<pi> \<i> / \<lambda>\<close>; the claim has the matrix
  of a point be \<open>[[s11, s12], [-s21, -s22]]\<close>. The array the code builds has that
  layout before \<^verbatim>\<open>.transpose()\<close>, which reverses all three axes: in the matrix of a
  point the negated entries stand in the second column, \<open>[[s11, -s21], [s12, -s22]]\<close>.
  Here the solver writes the rows \<open>1 0 2 0 3 0 4 0\<close> and \<open>5 0 6 0 7 0 8 0\<close> and the
  wavevector is 1, so that the factor is \<open>-\<i>\<close>; the claim would give
  \<open>[[-\<i>, -2\<i>], [3\<i>, 4\<i>]]\<close> for the first point.
\<close>

theorem tmatrix_second_row_in_second_column:
  "fst (raw_scat_matrs (fixed_output two_rows) (Tmatrix True)
          (Sphere (1 / 2) (Complex (158 / 100) (1 / 10000)))
          [(100, 0, 0), (100, pi / 2, pi)] 1 (133 / 100) fresh_world) =
     Inr [[[- \<i>, 3 * \<i>], [- 2 * \<i>, 4 * \<i>]], [[- 5 * \<i>, 7 * \<i>], [- 6 * \<i>, 8 * \<i>]]]"
  by (subst raw_scat_matrs_run(1)[where out = two_rows])
     (simp_all add: fresh_world_ok can_handle_def divisors_nonzero_def fixed_output_def two_rows_matrices)

text \<open>
  Claim C5. An axisymmetric scatterer with the shape tag \<open>-3\<close>: no error is raised. The
  input file has eight scalar lines, the line of the equivalent radius is missing, the
  solver is run on it and its output is returned.
\<close>

theorem unrecognised_shape_runs_solver_without_radius:
  "case raw_scat_matrs (fixed_output two_rows) (Tmatrix False)
          (Axisymmetric (3, 2) (Complex 2 0) (0, 0) (- 3))
          [(100, 0, pi), (100, pi / 2, 0)] 1 1 fresh_world of
     (result, w') \<Rightarrow>
       result = Inr [[[- \<i>, 3 * \<i>], [- 2 * \<i>, 4 * \<i>]], [[- 5 * \<i>, 7 * \<i>], [- 6 * \<i>, 8 * \<i>]]] \<and>
       input_payload w' 0 =
         [Str_float (2 * pi), Str_float 2, Str_float 0, Str_float (3 / 2), Str_float 0, Str_float 0,
          Str_int (- 3), Str_int 2, Cols [0, 180], Cols [90, 0]] \<and>
       log w' = [Mkdtemp 0, Copy_exe 0, Chdir (Some 0), Open_file 0 ''tmatrix_tmp.inp'',
                 Close_file 0 ''tmatrix_tmp.inp'', Run [Literal ''./S.exe''] (Some 0), Chdir None]"
proof -
  let ?sc = "Axisymmetric (3, 2) (Complex 2 0) (0, 0) (- 3)"
  let ?pos = "[(100, 0, pi), (100, pi / 2, 0)] :: (real \<times> real \<times> real) list"
  have h: "package_exe fresh_world" "cwd_exists fresh_world" "can_handle ?sc"
    "divisors_nonzero ?sc 1 1"
    "fixed_output two_rows (scalar_lines ?sc (2 * pi / 1) 1 (length ?pos) @ angle_rows ?pos) = (0, Some two_rows)"
    by (simp_all add: fresh_world_ok can_handle_def divisors_nonzero_def fixed_output_def)
  note r = raw_scat_matrs_run(1)[where S_exe = "fixed_output two_rows" and pos = ?pos
      and out = two_rows and self = "Tmatrix False", OF h]
    raw_scat_matrs_run_world[where S_exe = "fixed_output two_rows" and pos = ?pos
      and out = two_rows and self = "Tmatrix False", OF h]
  show ?thesis
    using r by (simp add: two_rows_matrices fresh_world_ok angle_rows_def split_beta)
qed

section \<open>Scatterers the T-matrix theory cannot handle\<close>




section \<open>A missing solver\<close>

text \<open>
  Claim C10, as stated, fails on the T-matrix path: when \<^verbatim>\<open>S.exe\<close> is not there the
  error is the one of the copy, not \<^verbatim>\<open>DependencyMissing\<close>, and the temporary
  directory has been created and stays.
\<close>

theorem no_exe_error_after_temp_dir:
  "raw_scat_matrs (fixed_output two_rows) (Tmatrix True) (Sphere 1 (Complex 2 0))
     [(100, 0, pi)] 1 1 (fresh_world\<lparr>package_exe := False\<rparr>) =
   (Inl FileNotFoundError,
    \<lparr>package_exe = False, tmp_dirs = [0], next_tmp = 1, files = [], cwd = None,
      log = [Mkdtemp 0]\<rparr>)"
  by (subst raw_scat_matrs_no_exe) (simp_all add: fresh_world_def cwd_exists_def)

text \<open>
  Claim C10, amended. Constructing the DDA theory raises \<^verbatim>\<open>DependencyMissing('adda')\<close>
  when \<^verbatim>\<open>adda\<close> is not found or its version check exits with a non-zero status, and no
  temporary directory is created. The T-matrix theory has no such check: when
  \<^verbatim>\<open>S.exe\<close> is missing, \<open>raw_scat_matrs\<close> creates the temporary directory and the
  copy then raises its own error.
\<close>

theorem missing_executable:
  "fst (DDA_init None optics imshape w) = Inl (DependencyMissing ''adda'') \<and>
   snd (DDA_init None optics imshape w) = w \<and>
   (version_status prog \<noteq> 0 \<longrightarrow>
      (case DDA_init (Some prog) optics imshape w of
         (result, w') \<Rightarrow>
           result = Inl (DependencyMissing ''adda'') \<and>
           tmp_dirs w' = tmp_dirs w \<and> next_tmp w' = next_tmp w \<and> files w' = files w \<and>
           log w' = log w @ [Run [Literal ''adda'', Literal ''-V''] (cwd w)])) \<and>
   (\<not> package_exe w \<and> cwd_exists w \<longrightarrow>
      (case raw_scat_matrs S_exe self scatterer pos medium_wavevec medium_index w of
         (result, w') \<Rightarrow>
           result = Inl FileNotFoundError \<and>
           tmp_dirs w' = tmp_dirs w @ [next_tmp w] \<and>
           log w' = log w @ [Mkdtemp (next_tmp w)]))"
  by (simp add: raw_scat_matrs_no_exe DDA_init_def Let_def)

text \<open>An \<^verbatim>\<open>adda\<close> whose version check fails, and a world without \<^verbatim>\<open>S.exe\<close>.\<close>

theorem missing_executable_witness:
  "version_status adda_broken \<noteq> 0 \<and>
   \<not> package_exe (fresh_world\<lparr>package_exe := False\<rparr>) \<and>
   cwd_exists (fresh_world\<lparr>package_exe := False\<rparr>) \<and>
   fst (DDA_init None example_optics (256, 256) fresh_world) = Inl (DependencyMissing ''adda'') \<and>
   fst (DDA_init (Some adda_broken) example_optics (256, 256)
          fresh_world) = Inl (DependencyMissing ''adda'') \<and>
   tmp_dirs (snd (DDA_init (Some adda_broken) example_optics
                    (256, 256) fresh_world)) = [] \<and>
   fst (raw_scat_matrs (fixed_output two_rows) (Tmatrix True) (Sphere 1 (Complex 2 0))
          [(100, 0, pi)] 1 1 (fresh_world\<lparr>package_exe := False\<rparr>)) = Inl FileNotFoundError \<and>
   tmp_dirs (snd (raw_scat_matrs (fixed_output two_rows) (Tmatrix True) (Sphere 1 (Complex 2 0))
                    [(100, 0, pi)] 1 1 (fresh_world\<lparr>package_exe := False\<rparr>))) = [0]"
  using missing_executable[where w = fresh_world and optics = example_optics and imshape = "(256, 256)"
      and prog = adda_broken]
    missing_executable[where w = "fresh_world\<lparr>package_exe := False\<rparr>"
      and S_exe = "fixed_output two_rows" and self = "Tmatrix True"
      and scatterer = "Sphere 1 (Complex 2 0)" and pos = "[(100, 0, pi)]"
      and medium_wavevec = 1 and medium_index = 1]
  by (simp add: fresh_world_def cwd_exists_def split_beta adda_broken_def)

section \<open>The scattering matrices of the DDA solver\<close>

lemma grid_table_matrices:
  "adda_scat_matr grid_table =
     Inr [[[Complex 2 0, Complex 4 0], [Complex 3 0, Complex 1 0]],
          [[Complex 6 0, Complex 8 0], [Complex 7 0, Complex 5 0]]]"
proof -
  have eq: "grid_table = Literal ''theta phi s1.r s1.i s2.r s2.i s3.r s3.i s4.r s4.i'' #
          map Cols [[0, 0, 1, 0, 2, 0, 3, 0, 4, 0], [90, 180, 5, 0, 6, 0, 7, 0, 8, 0]]"
    by (simp add: grid_table_def)
  show ?thesis
    unfolding eq by (subst adda_scat_matr_rows) simp_all
qed

lemma run0001_matches: "take 6 ''run0001'' = ''run000''" "take 6 ''run0002'' = ''run000''"
  by (simp_all add: eval_nat_numeral)

lemma example_pixels:
  "hologram_pixels upper_right example_dda example_sphere 1 (two_points example_dda c)
     [[[Complex 2 0, Complex 4 0], [Complex 3 0, Complex 1 0]],
      [[Complex 6 0, Complex 8 0], [Complex 7 0, Complex 5 0]]] =
   Inr \<lparr>holo_pixels = [[4, 8]], holo_optics = example_optics\<rparr>"
  by (simp add: hologram_pixels_def two_points_def upper_right_def example_dda_def then_py_def
      reshape_def Let_def)

lemma example_run:
  "fst (calc_holo (Some (adda_leaving ((''run0001'', Some grid_table) # rest))) two_points upper_right
          example_dda example_sphere 1 fresh_world) =
     (if list_all (\<lambda>run. fst run \<noteq> ''run0001'' \<and> CHR ''/'' \<notin> set (fst run)) rest
      then Inr \<lparr>holo_pixels = [[4, 8]], holo_optics = example_optics\<rparr>
      else fst (calc_holo (Some (adda_leaving ((''run0001'', Some grid_table) # rest))) two_points
                  upper_right example_dda example_sphere 1 fresh_world))"
proof (cases "list_all (\<lambda>run. fst run \<noteq> ''run0001'' \<and> CHR ''/'' \<notin> set (fst run)) rest")
  case True
  have "fst (calc_holo (Some (adda_leaving ((''run0001'', Some grid_table) # rest))) two_points upper_right
          example_dda example_sphere 1 fresh_world) =
        then_py (adda_scat_matr grid_table)
          (hologram_pixels upper_right example_dda example_sphere 1
             (two_points example_dda (sc_center example_sphere)))"
    using True
    by (intro calc_holo_first_run[where rest = rest])
       (simp_all add: example_dda_def example_optics_def fresh_world_ok adda_leaving_def)
  then show ?thesis
    using True by (simp add: grid_table_matrices then_py_def example_pixels)
next
  case False
  then show ?thesis by simp
qed

text \<open>
  Claim C2. With \<open>s0, s1, s2, s3\<close> the complex numbers of a row of \<^verbatim>\<open>ampl_scatgrid\<close>
  after its two angles, the claim has the matrix of a point be \<open>[[s1, s2], [s3, s0]]\<close>.
  The array the code builds has that layout before \<^verbatim>\<open>.transpose()\<close>, which reverses
  all three axes: the matrix of a point is \<open>[[s1, s3], [s2, s0]]\<close>. For the rows
  \<open>0 0 1 0 2 0 3 0 4 0\<close> and \<open>90 180 5 0 6 0 7 0 8 0\<close> the upper right entries are 4 and
  8 where the claim has 3 and 7, and a pixel routine that reads that entry gets them.
\<close>

theorem adda_off_diagonal_entries_swapped:
  "adda_scat_matr grid_table =
     Inr [[[Complex 2 0, Complex 4 0], [Complex 3 0, Complex 1 0]],
          [[Complex 6 0, Complex 8 0], [Complex 7 0, Complex 5 0]]] \<and>
   fst (calc_holo (Some (adda_leaving [(''run0001'', Some grid_table)])) two_points upper_right
          example_dda example_sphere 1 fresh_world) =
     Inr \<lparr>holo_pixels = [[4, 8]], holo_optics = example_optics\<rparr>"
  by (simp add: grid_table_matrices example_run)

lemma example_sphere_ok:
  "can_handle example_tmatrix_sphere" "divisors_nonzero example_tmatrix_sphere 1 (133 / 100)"
  by (simp_all add: example_tmatrix_sphere_def can_handle_def divisors_nonzero_def)

section \<open>The temporary directory after a call\<close>

text \<open>
  Claim C7, as stated, fails: a successful \<open>calc_holo\<close> of the DDA theory, which has no
  flag to keep it, leaves its temporary directory.
\<close>

theorem dda_temp_dir_stays:
  "fst (calc_holo (Some (adda_leaving [(''run0001'', Some grid_table)])) two_points upper_right
          example_dda example_sphere 1 fresh_world) =
     Inr \<lparr>holo_pixels = [[4, 8]], holo_optics = example_optics\<rparr> \<and>
   0 \<in> set (tmp_dirs (snd (calc_holo (Some (adda_leaving [(''run0001'', Some grid_table)])) two_points
                             upper_right example_dda example_sphere 1 fresh_world)))"
  using calc_holo_keeps_temp_dir[of fresh_world "Some (adda_leaving [(''run0001'', Some grid_table)])"
      two_points upper_right example_dda example_sphere 1]
  by (simp add: example_run fresh_world_ok)

text \<open>
  Claim C7, amended. When \<open>raw_scat_matrs\<close> of the T-matrix theory completes, its
  temporary directory is removed if \<open>delete\<close> is set and kept otherwise. \<open>calc_holo\<close> of
  the DDA theory never removes its temporary directory, whatever the arguments and
  however the call ends (the conjunct about it does not use the hypotheses).
\<close>

theorem temp_dir_after_call:
  assumes "package_exe w" and "cwd_exists w" and "can_handle scatterer"
    and "divisors_nonzero scatterer medium_wavevec medium_index"
    and "S_exe (scalar_lines scatterer (2 * pi / medium_wavevec) medium_index (length pos) @
                angle_rows pos) = (0, Some out)"
    and "tmatrix_scat_matr (2 * pi / medium_wavevec) out = Inr matrices"
  shows "(case raw_scat_matrs S_exe self scatterer pos medium_wavevec medium_index w of
            (result, w') \<Rightarrow>
              result = Inr matrices \<and> (next_tmp w \<in> set (tmp_dirs w')) = (\<not> delete self)) \<and>
         next_tmp w \<in> set (tmp_dirs (snd (calc_holo adda spherical_grid paraxholocl dda sphere alpha w)))"
  using raw_scat_matrs_run[where S_exe = S_exe and pos = pos and self = self, OF assms(1-5)] assms(6)
  by (simp add: split_beta calc_holo_keeps_temp_dir)

text \<open>
  The sphere of the end-to-end scenario with and without \<open>delete\<close>, and a DDA run that
  fails.
\<close>

theorem temp_dir_after_call_witness:
  "package_exe fresh_world \<and> cwd_exists fresh_world \<and> can_handle example_tmatrix_sphere \<and>
   divisors_nonzero example_tmatrix_sphere 1 (133 / 100) \<and>
   fixed_output two_rows
     (scalar_lines example_tmatrix_sphere (2 * pi / 1) (133 / 100) (length three_points) @
      angle_rows three_points) = (0, Some two_rows) \<and>
   tmatrix_scat_matr (2 * pi / 1) two_rows =
     Inr [[[- \<i>, 3 * \<i>], [- 2 * \<i>, 4 * \<i>]], [[- 5 * \<i>, 7 * \<i>], [- 6 * \<i>, 8 * \<i>]]] \<and>
   0 \<notin> set (tmp_dirs (snd (raw_scat_matrs (fixed_output two_rows) (Tmatrix True)
                             example_tmatrix_sphere three_points 1 (133 / 100) fresh_world))) \<and>
   0 \<in> set (tmp_dirs (snd (raw_scat_matrs (fixed_output two_rows) (Tmatrix False)
                             example_tmatrix_sphere three_points 1 (133 / 100) fresh_world))) \<and>
   0 \<in> set (tmp_dirs (snd (calc_holo (Some adda_broken) two_points upper_right example_dda
                             example_sphere 1 fresh_world)))"
proof -
  have h: "package_exe fresh_world" "cwd_exists fresh_world" "can_handle example_tmatrix_sphere"
    "divisors_nonzero example_tmatrix_sphere 1 (133 / 100)"
    "fixed_output two_rows
       (scalar_lines example_tmatrix_sphere (2 * pi / 1) (133 / 100) (length three_points) @
        angle_rows three_points) = (0, Some two_rows)"
    "tmatrix_scat_matr (2 * pi / 1) two_rows =
       Inr [[[- \<i>, 3 * \<i>], [- 2 * \<i>, 4 * \<i>]], [[- 5 * \<i>, 7 * \<i>], [- 6 * \<i>, 8 * \<i>]]]"
    by (simp_all add: fresh_world_ok example_sphere_ok fixed_output_def two_rows_matrices)
  note t = temp_dir_after_call[where S_exe = "fixed_output two_rows" and pos = three_points
      and out = two_rows and adda = "Some adda_broken" and spherical_grid = two_points
      and paraxholocl = upper_right and dda = example_dda and sphere = example_sphere
      and alpha = 1, OF h]
  from t[of "Tmatrix True"] t[of "Tmatrix False"] h show ?thesis
    by (simp add: split_beta fresh_world_ok)
qed

section \<open>The loop over the sampling points\<close>

lemma sequence_py_values: "sequence_py (map Inr xs) = Inr xs"
  by (induction xs) (simp_all add: then_py_def)

lemma sequence_py_error: "sequence_py (map Inr xs @ Inl e # ys) = Inl e"
  by (induction xs) (simp_all add: then_py_def)

lemma pixel_loop_enough:
  assumes "n \<le> m"
  shows "sequence_py (map (\<lambda>i. if i < m then Inr (h i) else Inl IndexError) [0..<n]) =
         Inr (map h [0..<n])"
proof -
  have "map (\<lambda>i. if i < m then Inr (h i) else Inl IndexError) [0..<n] = map Inr (map h [0..<n])"
    using assms by simp
  then show ?thesis
    by (simp only: sequence_py_values)
qed

lemma pixel_loop_short:
  assumes "m < n"
  shows "sequence_py (map (\<lambda>i. if i < m then Inr (h i) else Inl IndexError) [0..<n]) =
         Inl IndexError"
proof -
  have "[0..<n] = [0..<m] @ m # [Suc m..<n]"
    using assms by (metis le_add1 less_imp_add_positive upt_add_eq_append upt_conv_Cons plus_nat.add_0)
  then have "map (\<lambda>i. if i < m then Inr (h i) else Inl IndexError) [0..<n] =
        map Inr (map h [0..<m]) @ Inl IndexError #
        map (\<lambda>i. if i < m then Inr (h i) else Inl IndexError) [Suc m..<n]"
    by simp
  then show ?thesis
    by (simp only: sequence_py_error)
qed

lemma hologram_pixels_short:
  assumes "length scat_matr < length grid"
  shows "hologram_pixels paraxholocl self scatterer alpha grid scat_matr = Inl IndexError"
  using assms
  by (simp add: hologram_pixels_def Let_def pixel_loop_short then_py_def)

lemma hologram_pixels_enough:
  assumes "length grid \<le> length scat_matr"
  shows "hologram_pixels paraxholocl self scatterer alpha grid scat_matr =
     then_py (reshape (dda_imshape self)
                (map (\<lambda>i. paraxholocl (fst (grid ! i))
                             (sc_z scatterer * optics_wavevec (dda_optics self))
                             (fst (snd (grid ! i))) (snd (snd (grid ! i))) (scat_matr ! i)
                             (optics_polarization (dda_optics self)) alpha)
                   [0..<length grid]))
       (\<lambda>image. Inr \<lparr>holo_pixels = image, holo_optics = dda_optics self\<rparr>)"
proof -
  have eq: "map (\<lambda>i. paraxholocl (map fst grid ! i)
                       (sc_z scatterer * optics_wavevec (dda_optics self))
                       (map (\<lambda>p. fst (snd p)) grid ! i)
                       (map (\<lambda>p. snd (snd p)) grid ! i) (scat_matr ! i)
                       (optics_polarization (dda_optics self)) alpha)
              [0..<length grid] =
            map (\<lambda>i. paraxholocl (fst (grid ! i))
                             (sc_z scatterer * optics_wavevec (dda_optics self))
                             (fst (snd (grid ! i))) (snd (snd (grid ! i))) (scat_matr ! i)
                             (optics_polarization (dda_optics self)) alpha)
                   [0..<length grid]"
    by (rule map_cong) simp_all
  show ?thesis
    using assms
    by (simp add: hologram_pixels_def Let_def pixel_loop_enough then_py_def eq)
qed

lemma table_rows:
  "long_table = Literal ''theta phi s1.r s1.i s2.r s2.i s3.r s3.i s4.r s4.i'' #
     map Cols [[0, 0, 1, 0, 2, 0, 3, 0, 4, 0], [90, 180, 5, 0, 6, 0, 7, 0, 8, 0],
               [180, 0, 9, 0, 10, 0, 11, 0, 12, 0]]"
  "grid_table = Literal ''theta phi s1.r s1.i s2.r s2.i s3.r s3.i s4.r s4.i'' #
     map Cols [[0, 0, 1, 0, 2, 0, 3, 0, 4, 0], [90, 180, 5, 0, 6, 0, 7, 0, 8, 0]]"
  by (simp_all add: long_table_def grid_table_def)

section \<open>The number of rows of the result\<close>

text \<open>
  Claim C8, as stated, fails: three sampling points are requested, the solver writes two
  rows, and two matrices are returned without an error.
\<close>

theorem row_count_not_checked:
  "fst (raw_scat_matrs (fixed_output two_rows) (Tmatrix True) example_tmatrix_sphere three_points
          1 (133 / 100) fresh_world) =
     Inr [[[- \<i>, 3 * \<i>], [- 2 * \<i>, 4 * \<i>]], [[- 5 * \<i>, 7 * \<i>], [- 6 * \<i>, 8 * \<i>]]]"
  by (subst raw_scat_matrs_run(1)[where out = two_rows])
     (simp_all add: fresh_world_ok example_sphere_ok fixed_output_def two_rows_matrices)

text \<open>
  Claim C8, amended. The number of rows is never compared with the number of sampling
  points, and nothing raises \<^verbatim>\<open>ResultShapeMismatch\<close>. When the T-matrix solver exits
  with status 0 and its table has at least two rows, of 8 columns, \<open>raw_scat_matrs\<close>
  returns exactly as many matrices as there are rows, whatever the number of sampling
  points. When the table of the first run directory that \<^verbatim>\<open>adda\<close> leaves has, after
  its header line, at least two rows, of 10 columns, it is read as exactly as many
  matrices as there are rows; with fewer rows than points of the grid \<open>calc_holo\<close> then
  raises \<^verbatim>\<open>IndexError\<close>, and with at least as many rows as points it computes one pixel
  for each point of the grid, from the matrix of the row of the same index, and its
  result is what reshaping these pixels to \<^verbatim>\<open>imshape\<close> gives: the rows beyond the
  number of points are not used, and no error tells of them.
\<close>

theorem matrices_follow_output_rows:
  assumes "package_exe w" and "cwd_exists w" and "can_handle scatterer"
    and "divisors_nonzero scatterer medium_wavevec medium_index"
    and "S_exe (scalar_lines scatterer (2 * pi / medium_wavevec) medium_index (length pos) @
                angle_rows pos) = (0, Some (map Cols rows))"
    and "2 \<le> length rows" and "list_all (\<lambda>r. length r = 8) rows"
    and "optics_index (dda_optics dda) \<noteq> 0" and "next_tmp_unused w"
    and "grid = spherical_grid dda (sc_center sphere)"
    and "adda_run prog (adda_args dda sphere) (adda_params grid) =
           (0, (name, Some (header # map Cols grid_rows)) # rest)"
    and "take 6 name = ''run000''" and "CHR ''/'' \<notin> set name"
    and "list_all (\<lambda>run. fst run \<noteq> name \<and> CHR ''/'' \<notin> set (fst run)) rest"
    and "2 \<le> length grid_rows" and "list_all (\<lambda>r. length r = 10) grid_rows"
  shows "(\<exists>matrices.
            fst (raw_scat_matrs S_exe self scatterer pos medium_wavevec medium_index w) = Inr matrices \<and>
            length matrices = length rows) \<and>
         (\<exists>matrices.
            adda_scat_matr (header # map Cols grid_rows) = Inr matrices \<and>
            length matrices = length grid_rows \<and>
            (length grid_rows < length grid \<longrightarrow>
               fst (calc_holo (Some prog) spherical_grid paraxholocl dda sphere alpha w) =
                 Inl IndexError) \<and>
            (length grid \<le> length grid_rows \<longrightarrow>
               fst (calc_holo (Some prog) spherical_grid paraxholocl dda sphere alpha w) =
                 then_py (reshape (dda_imshape dda)
                            (map (\<lambda>i. paraxholocl (fst (grid ! i))
                                         (sc_z sphere * optics_wavevec (dda_optics dda))
                                         (fst (snd (grid ! i))) (snd (snd (grid ! i)))
                                         (matrices ! i)
                                         (optics_polarization (dda_optics dda)) alpha)
                               [0..<length grid]))
                   (\<lambda>image. Inr \<lparr>holo_pixels = image, holo_optics = dda_optics dda\<rparr>)))"
proof
  show "\<exists>matrices.
            fst (raw_scat_matrs S_exe self scatterer pos medium_wavevec medium_index w) = Inr matrices \<and>
            length matrices = length rows"
    by (simp add: raw_scat_matrs_run(1)[where S_exe = S_exe and pos = pos, OF assms(1-5)]
        tmatrix_scat_matr_rows[OF assms(6,7)])
next
  define matrices where "matrices =
      map (\<lambda>r. [[Complex (r ! 4) (r ! 5), Complex (r ! 8) (r ! 9)],
                 [Complex (r ! 6) (r ! 7), Complex (r ! 2) (r ! 3)]]) grid_rows"
  have m: "adda_scat_matr (header # map Cols grid_rows) = Inr matrices"
    unfolding matrices_def by (rule adda_scat_matr_rows[OF assms(15,16)])
  have l: "length matrices = length grid_rows"
    by (simp add: matrices_def)
  have c: "fst (calc_holo (Some prog) spherical_grid paraxholocl dda sphere alpha w) =
           hologram_pixels paraxholocl dda sphere alpha grid matrices"
    using calc_holo_first_run[where rest = rest and name = name and prog = prog
        and spherical_grid = spherical_grid and self = dda and scatterer = sphere
        and table = "header # map Cols grid_rows" and w = w and paraxholocl = paraxholocl
        and alpha = alpha] assms(8-14)
    by (simp add: m then_py_def)
  show "\<exists>matrices.
            adda_scat_matr (header # map Cols grid_rows) = Inr matrices \<and>
            length matrices = length grid_rows \<and>
            (length grid_rows < length grid \<longrightarrow>
               fst (calc_holo (Some prog) spherical_grid paraxholocl dda sphere alpha w) =
                 Inl IndexError) \<and>
            (length grid \<le> length grid_rows \<longrightarrow>
               fst (calc_holo (Some prog) spherical_grid paraxholocl dda sphere alpha w) =
                 then_py (reshape (dda_imshape dda)
                            (map (\<lambda>i. paraxholocl (fst (grid ! i))
                                         (sc_z sphere * optics_wavevec (dda_optics dda))
                                         (fst (snd (grid ! i))) (snd (snd (grid ! i)))
                                         (matrices ! i)
                                         (optics_polarization (dda_optics dda)) alpha)
                               [0..<length grid]))
                   (\<lambda>image. Inr \<lparr>holo_pixels = image, holo_optics = dda_optics dda\<rparr>))"
    using m l c hologram_pixels_short[of matrices grid paraxholocl dda sphere alpha]
      hologram_pixels_enough[of grid matrices paraxholocl dda sphere alpha]
    by (intro exI[of _ matrices]) simp
qed

text \<open>
  Three sampling points and a table of two rows for the T-matrix solver; for
  \<^verbatim>\<open>adda\<close>, a grid of two points with a table of three rows, and a grid of three
  points with a table of two.
\<close>

theorem matrices_follow_output_rows_witness:
  "package_exe fresh_world \<and> cwd_exists fresh_world \<and> next_tmp_unused fresh_world \<and>
   can_handle example_tmatrix_sphere \<and> divisors_nonzero example_tmatrix_sphere 1 (133 / 100) \<and>
   fixed_output two_rows
     (scalar_lines example_tmatrix_sphere (2 * pi / 1) (133 / 100) (length three_points) @
      angle_rows three_points) = (0, Some two_rows) \<and>
   optics_index (dda_optics example_dda) \<noteq> 0 \<and>
   adda_run (adda_leaving [(''run0001'', Some long_table)]) (adda_args example_dda example_sphere)
     (adda_params (two_points example_dda (sc_center example_sphere))) =
     (0, [(''run0001'', Some long_table)]) \<and>
   adda_run (adda_leaving [(''run0001'', Some grid_table)]) (adda_args example_dda example_sphere)
     (adda_params (three_point_grid example_dda (sc_center example_sphere))) =
     (0, [(''run0001'', Some grid_table)]) \<and>
   take 6 ''run0001'' = ''run000'' \<and> CHR ''/'' \<notin> set ''run0001'' \<and>
   length three_points = 3 \<and>
   length (two_points example_dda (sc_center example_sphere)) = 2 \<and>
   length (three_point_grid example_dda (sc_center example_sphere)) = 3 \<and>
   (\<exists>matrices.
      fst (raw_scat_matrs (fixed_output two_rows) (Tmatrix True) example_tmatrix_sphere three_points
             1 (133 / 100) fresh_world) = Inr matrices \<and>
      length matrices = 2) \<and>
   (\<exists>matrices. adda_scat_matr long_table = Inr matrices \<and> length matrices = 3) \<and>
   fst (calc_holo (Some (adda_leaving [(''run0001'', Some long_table)])) two_points upper_right
          example_dda example_sphere 1 fresh_world) =
     Inr \<lparr>holo_pixels = [[4, 8]], holo_optics = example_optics\<rparr> \<and>
   (\<exists>matrices. adda_scat_matr grid_table = Inr matrices \<and> length matrices = 2) \<and>
   fst (calc_holo (Some (adda_leaving [(''run0001'', Some grid_table)])) three_point_grid upper_right
          example_dda example_sphere 1 fresh_world) = Inl IndexError"
proof -
  let ?header = "Literal ''theta phi s1.r s1.i s2.r s2.i s3.r s3.i s4.r s4.i''"
  let ?rows3 = "[[0, 0, 1, 0, 2, 0, 3, 0, 4, 0], [90, 180, 5, 0, 6, 0, 7, 0, 8, 0],
                 [180, 0, 9, 0, 10, 0, 11, 0, 12, 0]] :: real list list"
  let ?rows2 = "[[0, 0, 1, 0, 2, 0, 3, 0, 4, 0], [90, 180, 5, 0, 6, 0, 7, 0, 8, 0]] :: real list list"
  let ?rows = "[[1, 0, 2, 0, 3, 0, 4, 0], [5, 0, 6, 0, 7, 0, 8, 0]] :: real list list"
  have t: "package_exe fresh_world" "cwd_exists fresh_world" "can_handle example_tmatrix_sphere"
    "divisors_nonzero example_tmatrix_sphere 1 (133 / 100)"
    "fixed_output two_rows
       (scalar_lines example_tmatrix_sphere (2 * pi / 1) (133 / 100) (length three_points) @
        angle_rows three_points) = (0, Some (map Cols ?rows))"
    "2 \<le> length ?rows" "list_all (\<lambda>r. length r = 8) ?rows"
    "optics_index (dda_optics example_dda) \<noteq> 0" "next_tmp_unused fresh_world"
    by (simp_all add: fresh_world_ok example_sphere_ok fixed_output_def two_rows_def
        example_dda_def example_optics_def)
  have n: "take 6 ''run0001'' = ''run000''" "CHR ''/'' \<notin> set ''run0001''"
    "list_all (\<lambda>run. fst run \<noteq> ''run0001'' \<and> CHR ''/'' \<notin> set (fst run))
       ([] :: (string \<times> line list option) list)"
    by simp_all
  have a: "adda_run (adda_leaving [(''run0001'', Some long_table)])
             (adda_args example_dda example_sphere)
             (adda_params (two_points example_dda (sc_center example_sphere))) =
           (0, [(''run0001'', Some (?header # map Cols ?rows3))])"
    "2 \<le> length ?rows3" "list_all (\<lambda>r. length r = 10) ?rows3"
    by (simp_all add: adda_leaving_def long_table_def)
  have b: "adda_run (adda_leaving [(''run0001'', Some grid_table)])
             (adda_args example_dda example_sphere)
             (adda_params (three_point_grid example_dda (sc_center example_sphere))) =
           (0, [(''run0001'', Some (?header # map Cols ?rows2))])"
    "2 \<le> length ?rows2" "list_all (\<lambda>r. length r = 10) ?rows2"
    by (simp_all add: adda_leaving_def grid_table_def)
  have len: "length three_points = 3"
    "length (two_points example_dda (sc_center example_sphere)) = 2"
    "length (three_point_grid example_dda (sc_center example_sphere)) = 3"
    by (simp_all add: three_points_def two_points_def three_point_grid_def)
  note A = matrices_follow_output_rows[where S_exe = "fixed_output two_rows" and pos = three_points
      and self = "Tmatrix True" and rows = ?rows and dda = example_dda and sphere = example_sphere
      and spherical_grid = two_points
      and grid = "two_points example_dda (sc_center example_sphere)"
      and prog = "adda_leaving [(''run0001'', Some long_table)]" and name = "''run0001''"
      and header = ?header and grid_rows = ?rows3 and rest = "[]"
      and paraxholocl = upper_right and alpha = 1,
      OF t refl a(1) n a(2,3)]
  note B = matrices_follow_output_rows[where S_exe = "fixed_output two_rows" and pos = three_points
      and self = "Tmatrix True" and rows = ?rows and dda = example_dda and sphere = example_sphere
      and spherical_grid = three_point_grid
      and grid = "three_point_grid example_dda (sc_center example_sphere)"
      and prog = "adda_leaving [(''run0001'', Some grid_table)]" and name = "''run0001''"
      and header = ?header and grid_rows = ?rows2 and rest = "[]"
      and paraxholocl = upper_right and alpha = 1,
      OF t refl b(1) n b(2,3)]
  have T: "\<exists>matrices.
      fst (raw_scat_matrs (fixed_output two_rows) (Tmatrix True) example_tmatrix_sphere three_points
             1 (133 / 100) fresh_world) = Inr matrices \<and>
      length matrices = 2"
    using A by (simp add: numeral_2_eq_2)
  have M3: "adda_scat_matr long_table =
      Inr [[[Complex 2 0, Complex 4 0], [Complex 3 0, Complex 1 0]],
           [[Complex 6 0, Complex 8 0], [Complex 7 0, Complex 5 0]],
           [[Complex 10 0, Complex 12 0], [Complex 11 0, Complex 9 0]]]"
    unfolding table_rows by (subst adda_scat_matr_rows) simp_all
  from A obtain ms where ms: "adda_scat_matr (?header # map Cols ?rows3) = Inr ms"
    "length (two_points example_dda (sc_center example_sphere)) \<le> length ?rows3 \<longrightarrow>
     fst (calc_holo (Some (adda_leaving [(''run0001'', Some long_table)])) two_points upper_right
            example_dda example_sphere 1 fresh_world) =
       then_py (reshape (dda_imshape example_dda)
                  (map (\<lambda>i. upper_right
                               (fst (two_points example_dda (sc_center example_sphere) ! i))
                               (sc_z example_sphere * optics_wavevec (dda_optics example_dda))
                               (fst (snd (two_points example_dda (sc_center example_sphere) ! i)))
                               (snd (snd (two_points example_dda (sc_center example_sphere) ! i)))
                               (ms ! i)
                               (optics_polarization (dda_optics example_dda)) 1)
                     [0..<length (two_points example_dda (sc_center example_sphere))]))
         (\<lambda>image. Inr \<lparr>holo_pixels = image, holo_optics = dda_optics example_dda\<rparr>)"
    by blast
  have "ms = [[[Complex 2 0, Complex 4 0], [Complex 3 0, Complex 1 0]],
           [[Complex 6 0, Complex 8 0], [Complex 7 0, Complex 5 0]],
           [[Complex 10 0, Complex 12 0], [Complex 11 0, Complex 9 0]]]"
    using ms(1) M3 unfolding table_rows by simp
  with ms(2) have HA: "fst (calc_holo (Some (adda_leaving [(''run0001'', Some long_table)])) two_points
          upper_right example_dda example_sphere 1 fresh_world) =
     Inr \<lparr>holo_pixels = [[4, 8]], holo_optics = example_optics\<rparr>"
    by (simp add: two_points_def upper_right_def example_dda_def reshape_def then_py_def numeral_2_eq_2)
  have HB: "fst (calc_holo (Some (adda_leaving [(''run0001'', Some grid_table)])) three_point_grid
          upper_right example_dda example_sphere 1 fresh_world) = Inl IndexError"
    using B by (auto simp: len)
  have E3: "\<exists>matrices. adda_scat_matr long_table = Inr matrices \<and> length matrices = 3"
    using M3 by simp
  have E2: "\<exists>matrices. adda_scat_matr grid_table = Inr matrices \<and> length matrices = 2"
    by (simp add: grid_table_matrices)
  have h5: "fixed_output two_rows
     (scalar_lines example_tmatrix_sphere (2 * pi / 1) (133 / 100) (length three_points) @
      angle_rows three_points) = (0, Some two_rows)"
    by (simp add: fixed_output_def)
  have a': "adda_run (adda_leaving [(''run0001'', Some long_table)]) (adda_args example_dda example_sphere)
     (adda_params (two_points example_dda (sc_center example_sphere))) =
     (0, [(''run0001'', Some long_table)])"
    and b': "adda_run (adda_leaving [(''run0001'', Some grid_table)]) (adda_args example_dda example_sphere)
     (adda_params (three_point_grid example_dda (sc_center example_sphere))) =
     (0, [(''run0001'', Some grid_table)])"
    by (simp_all add: adda_leaving_def)
  from t(1-4,8,9) h5 a' b' n(1,2) len T E3 HA E2 HB show ?thesis
    by blast
qed

text \<open>
  A table of one row is outside the amended claim: \<^verbatim>\<open>np.loadtxt\<close> returns it
  one-dimensional, and the slice over two axes raises.
\<close>

lemma single_row_is_index_error:
  "tmatrix_scat_matr med_wavelen [Cols [1, 0, 2, 0, 3, 0, 4, 0]] = Inl IndexError"
  by (simp add: tmatrix_scat_matr_def loadtxt_def then_py_def columns_from_def)

section \<open>Locating the result\<close>

text \<open>
  Claim C9, as stated, fails: when nothing matches, the error is the \<^verbatim>\<open>IndexError\<close> of
  \<^verbatim>\<open>glob.glob(...)[0]\<close>, and of two run directories the first one listed is used.
\<close>

theorem lookup_raises_index_error_or_takes_first:
  "fst (raw_scat_matrs silent_solver (Tmatrix True) example_tmatrix_sphere three_points
          1 (133 / 100) fresh_world) = Inl IndexError \<and>
   fst (calc_holo (Some (adda_leaving [])) two_points upper_right example_dda example_sphere 1
          fresh_world) = Inl IndexError \<and>
   fst (calc_holo (Some (adda_leaving [(''run0001'', Some grid_table), (''run0002'', Some other_table)]))
          two_points upper_right example_dda example_sphere 1 fresh_world) =
     Inr \<lparr>holo_pixels = [[4, 8]], holo_optics = example_optics\<rparr>"
proof -
  have 1: "fst (raw_scat_matrs silent_solver (Tmatrix True) example_tmatrix_sphere three_points
          1 (133 / 100) fresh_world) = Inl IndexError"
    by (rule raw_scat_matrs_no_output(1))
       (simp_all add: fresh_world_ok example_sphere_ok silent_solver_def)
  have 2: "fst (calc_holo (Some (adda_leaving [])) two_points upper_right example_dda example_sphere 1
          fresh_world) = Inl IndexError"
    by (rule calc_holo_no_run)
       (simp_all add: fresh_world_ok example_dda_def example_optics_def adda_leaving_def)
  show ?thesis
    using 1 2 by (simp add: example_run)
qed

text \<open>
  Claim C9, amended. In a temporary directory that is new, \<^verbatim>\<open>glob.glob(...)[0]\<close>
  raises \<^verbatim>\<open>IndexError\<close> when nothing matches: on the T-matrix path when the solver
  exits with status 0 and has written no \<^verbatim>\<open>tmatrix_tmp.out\<close>, on the DDA path when
  \<^verbatim>\<open>adda\<close> leaves no entry \<^verbatim>\<open>run000*\<close>. When \<^verbatim>\<open>adda\<close> leaves several run
  directories, the first one listed is read and the others are ignored, without an
  error.
\<close>

theorem result_lookup:
  assumes "package_exe w" and "cwd_exists w" and "next_tmp_unused w" and "can_handle scatterer"
    and "divisors_nonzero scatterer medium_wavevec medium_index"
    and "optics_index (dda_optics dda) \<noteq> 0"
  shows "(S_exe (scalar_lines scatterer (2 * pi / medium_wavevec) medium_index (length pos) @
                 angle_rows pos) = (0, None) \<longrightarrow>
            fst (raw_scat_matrs S_exe self scatterer pos medium_wavevec medium_index w) =
              Inl IndexError) \<and>
         (adda_run prog (adda_args dda sphere) (adda_params (spherical_grid dda (sc_center sphere))) =
            (0, []) \<longrightarrow>
            fst (calc_holo (Some prog) spherical_grid paraxholocl dda sphere alpha w) =
              Inl IndexError) \<and>
         (adda_run prog (adda_args dda sphere) (adda_params (spherical_grid dda (sc_center sphere))) =
            (0, (name, Some table) # rest) \<and>
          take 6 name = ''run000'' \<and> CHR ''/'' \<notin> set name \<and>
          list_all (\<lambda>run. fst run \<noteq> name \<and> CHR ''/'' \<notin> set (fst run)) rest \<longrightarrow>
            fst (calc_holo (Some prog) spherical_grid paraxholocl dda sphere alpha w) =
              then_py (adda_scat_matr table)
                (hologram_pixels paraxholocl dda sphere alpha (spherical_grid dda (sc_center sphere))))"
proof (intro conjI impI)
  assume "S_exe (scalar_lines scatterer (2 * pi / medium_wavevec) medium_index (length pos) @
                 angle_rows pos) = (0, None)"
  then show "fst (raw_scat_matrs S_exe self scatterer pos medium_wavevec medium_index w) =
              Inl IndexError"
    using assms(1-5) by (intro raw_scat_matrs_no_output(1))
next
  assume "adda_run prog (adda_args dda sphere) (adda_params (spherical_grid dda (sc_center sphere))) =
            (0, [])"
  then show "fst (calc_holo (Some prog) spherical_grid paraxholocl dda sphere alpha w) = Inl IndexError"
    using assms(3,6) by (intro calc_holo_no_run)
next
  assume a: "adda_run prog (adda_args dda sphere) (adda_params (spherical_grid dda (sc_center sphere))) =
            (0, (name, Some table) # rest) \<and>
          take 6 name = ''run000'' \<and> CHR ''/'' \<notin> set name \<and>
          list_all (\<lambda>run. fst run \<noteq> name \<and> CHR ''/'' \<notin> set (fst run)) rest"
  show "fst (calc_holo (Some prog) spherical_grid paraxholocl dda sphere alpha w) =
              then_py (adda_scat_matr table)
                (hologram_pixels paraxholocl dda sphere alpha (spherical_grid dda (sc_center sphere)))"
    using assms(3,6) a by (intro calc_holo_first_run[where rest = rest and name = name]) simp_all
qed

text \<open>A solver that writes nothing, and \<^verbatim>\<open>adda\<close> leaving no run and two runs.\<close>

theorem result_lookup_witness:
  "package_exe fresh_world \<and> cwd_exists fresh_world \<and> next_tmp_unused fresh_world \<and>
   can_handle example_tmatrix_sphere \<and> divisors_nonzero example_tmatrix_sphere 1 (133 / 100) \<and>
   optics_index (dda_optics example_dda) \<noteq> 0 \<and>
   silent_solver
     (scalar_lines example_tmatrix_sphere (2 * pi / 1) (133 / 100) (length three_points) @
      angle_rows three_points) = (0, None) \<and>
   adda_run (adda_leaving []) (adda_args example_dda example_sphere)
     (adda_params (two_points example_dda (sc_center example_sphere))) = (0, []) \<and>
   adda_run (adda_leaving [(''run0001'', Some grid_table), (''run0002'', Some other_table)])
     (adda_args example_dda example_sphere)
     (adda_params (two_points example_dda (sc_center example_sphere))) =
     (0, [(''run0001'', Some grid_table), (''run0002'', Some other_table)]) \<and>
   take 6 ''run0001'' = ''run000'' \<and> CHR ''/'' \<notin> set ''run0001'' \<and>
   list_all (\<lambda>run. fst run \<noteq> ''run0001'' \<and> CHR ''/'' \<notin> set (fst run))
     [(''run0002'', Some other_table)] \<and>
   fst (raw_scat_matrs silent_solver (Tmatrix True) example_tmatrix_sphere three_points
          1 (133 / 100) fresh_world) = Inl IndexError \<and>
   fst (calc_holo (Some (adda_leaving [])) two_points upper_right example_dda example_sphere 1
          fresh_world) = Inl IndexError \<and>
   fst (calc_holo (Some (adda_leaving [(''run0001'', Some grid_table), (''run0002'', Some other_table)]))
          two_points upper_right example_dda example_sphere 1 fresh_world) =
     Inr \<lparr>holo_pixels = [[4, 8]], holo_optics = example_optics\<rparr>"
proof -
  have h: "package_exe fresh_world" "cwd_exists fresh_world" "next_tmp_unused fresh_world"
    "can_handle example_tmatrix_sphere" "divisors_nonzero example_tmatrix_sphere 1 (133 / 100)"
    "optics_index (dda_optics example_dda) \<noteq> 0"
    by (simp_all add: fresh_world_ok example_sphere_ok example_dda_def example_optics_def)
  have s: "silent_solver
     (scalar_lines example_tmatrix_sphere (2 * pi / 1) (133 / 100) (length three_points) @
      angle_rows three_points) = (0, None)"
    "adda_run (adda_leaving []) (adda_args example_dda example_sphere)
       (adda_params (two_points example_dda (sc_center example_sphere))) = (0, [])"
    "adda_run (adda_leaving [(''run0001'', Some grid_table), (''run0002'', Some other_table)])
       (adda_args example_dda example_sphere)
       (adda_params (two_points example_dda (sc_center example_sphere))) =
       (0, [(''run0001'', Some grid_table), (''run0002'', Some other_table)])"
    "take 6 ''run0001'' = ''run000''" "CHR ''/'' \<notin> set ''run0001''"
    "list_all (\<lambda>run. fst run \<noteq> ''run0001'' \<and> CHR ''/'' \<notin> set (fst run))
       [(''run0002'', Some other_table)]"
    by (simp_all add: silent_solver_def adda_leaving_def)
  note a = result_lookup[where S_exe = silent_solver and pos = three_points and self = "Tmatrix True"
      and prog = "adda_leaving []" and spherical_grid = two_points and sphere = example_sphere
      and paraxholocl = upper_right and alpha = 1, OF h]
  note b = result_lookup[where S_exe = silent_solver and pos = three_points and self = "Tmatrix True"
      and prog = "adda_leaving [(''run0001'', Some grid_table), (''run0002'', Some other_table)]"
      and spherical_grid = two_points and sphere = example_sphere
      and paraxholocl = upper_right and alpha = 1 and name = "''run0001''" and table = grid_table
      and rest = "[(''run0002'', Some other_table)]", OF h]
  have 1: "fst (raw_scat_matrs silent_solver (Tmatrix True) example_tmatrix_sphere three_points
          1 (133 / 100) fresh_world) = Inl IndexError"
    using a s(1) by blast
  have 2: "fst (calc_holo (Some (adda_leaving [])) two_points upper_right example_dda example_sphere 1
          fresh_world) = Inl IndexError"
    using a s(2) by blast
  have "fst (calc_holo (Some (adda_leaving [(''run0001'', Some grid_table), (''run0002'', Some other_table)]))
          two_points upper_right example_dda example_sphere 1 fresh_world) =
        then_py (adda_scat_matr grid_table)
          (hologram_pixels upper_right example_dda example_sphere 1
             (two_points example_dda (sc_center example_sphere)))"
    using b s(3-6) by blast
  then have 3: "fst (calc_holo (Some (adda_leaving [(''run0001'', Some grid_table), (''run0002'', Some other_table)]))
          two_points upper_right example_dda example_sphere 1 fresh_world) =
     Inr \<lparr>holo_pixels = [[4, 8]], holo_optics = example_optics\<rparr>"
    by (simp add: grid_table_matrices then_py_def example_pixels)
  from h s 1 2 3 show ?thesis
    by blast
qed

end
